theory Spec2Isabelle
  imports Main "HOL-Library.Word"
begin

section \<open>JavaScript strings\<close>

text \<open>
  Strings are lists of 8-bit characters, read as the code units U+0000 to U+00FF.
  The functions below are the string built-ins the vault code calls, written out on that
  range.
\<close>

definition toLowerChar :: "char \<Rightarrow> char" where
  "toLowerChar c =
     (let n = (of_char c :: nat)
      in if (65 \<le> n \<and> n \<le> 90) \<or> (192 \<le> n \<and> n \<le> 222 \<and> n \<noteq> 215)
         then char_of (n + 32) else c)"

definition toLowerCase :: "string \<Rightarrow> string" where
  "toLowerCase s = map toLowerChar s"

text \<open>\<open>s.includes(t)\<close>: \<open>t\<close> occurs in \<open>s\<close> as a contiguous run.\<close>

fun str_includes :: "string \<Rightarrow> string \<Rightarrow> bool" where
  "str_includes [] t = (t = [])"
| "str_includes (x # xs) t = (take (length t) (x # xs) = t \<or> str_includes xs t)"

text \<open>\<open>s.split(c)\<close> for a one-character separator; the empty string gives one empty piece.\<close>

fun split_on :: "char \<Rightarrow> string \<Rightarrow> string list" where
  "split_on c [] = [[]]"
| "split_on c (x # xs) =
     (if x = c then [] # split_on c xs
      else (case split_on c xs of
              [] \<Rightarrow> [[x]]
            | p # ps \<Rightarrow> (x # p) # ps))"

text \<open>\<open>parts.join(sep)\<close>.\<close>

fun join :: "string \<Rightarrow> string list \<Rightarrow> string" where
  "join sep [] = []"
| "join sep [p] = p"
| "join sep (p # q # ps) = p @ sep @ join sep (q # ps)"

definition isAlnum :: "char \<Rightarrow> bool" where
  "isAlnum c =
     (let n = (of_char c :: nat)
      in (48 \<le> n \<and> n \<le> 57) \<or> (65 \<le> n \<and> n \<le> 90) \<or> (97 \<le> n \<and> n \<le> 122))"

text \<open>
  A call either returns or raises; \<open>Inl\<close> carries the raised error with its message.
\<close>

datatype js_error = Error string

type_synonym 'a completion = "js_error + 'a"

section \<open>Credential matcher (background.js)\<close>

text \<open>
  A stored credential. The \<open>id\<close> property may be absent; \<open>website\<close> and \<open>username\<close> are
  the strings the save dialog stored.
\<close>

record credential =
  cred_id :: "string option"
  website :: string
  username :: string
  password :: string
  lastUpdated :: int
  hasTOTP :: bool

text \<open>
  The id backfill of the filter callback: \<open>!entry.id\<close> holds for a missing id and for the
  empty string; the new id is \<open>`${website}-${username}`.replace(/[^a-z0-9]/gi, '-')\<close>.
\<close>

definition sanitizeId :: "string \<Rightarrow> string" where
  "sanitizeId s = map (\<lambda>c. if isAlnum c then c else CHR ''-'') s"

definition ensureId :: "credential \<Rightarrow> credential" where
  "ensureId entry =
     (if cred_id entry = None \<or> cred_id entry = Some []
      then entry\<lparr>cred_id := Some (sanitizeId (website entry @ ''-'' @ username entry))\<rparr>
      else entry)"

text \<open>
  The loop \<open>for (i = 0; i < domainParts.length - 1; i++) possibleDomains.push(domainParts.slice(i).join('.'))\<close>.
\<close>

definition possibleDomains :: "string \<Rightarrow> string list" where
  "possibleDomains hostname =
     (let domainParts = split_on CHR ''.'' hostname
      in map (\<lambda>i. join ''.'' (drop i domainParts)) [0..<length domainParts - 1])"

text \<open>The body of the filter callback after the backfill: \<open>possibleDomains.some(...)\<close>.\<close>

definition entryMatches :: "string \<Rightarrow> credential \<Rightarrow> bool" where
  "entryMatches hostname entry =
     (let w = toLowerCase (website entry)
      in list_ex (\<lambda>domain. str_includes w domain \<or> str_includes domain w) (possibleDomains hostname))"

text \<open>
  \<open>findCredentialsForUrl\<close>. The URL parser \<open>new URL(url).hostname\<close> is a browser built-in and
  is a parameter: \<open>None\<close> stands for the \<open>TypeError\<close> it raises on a string that is not a
  URL. The function returns the matches; the second component is the global \<open>passwords\<close>
  array after the call, whose entries the callback has given ids.
\<close>

definition findCredentialsForUrl ::
  "(string \<Rightarrow> string option) \<Rightarrow> credential list \<Rightarrow> string \<Rightarrow> credential list \<times> credential list" where
  "findCredentialsForUrl url_hostname passwords url =
     (if passwords = [] then ([], passwords)
      else (case url_hostname url of
              None \<Rightarrow> ([], passwords)
            | Some h \<Rightarrow>
                (let hostname = toLowerCase h;
                     passwords' = map ensureId passwords
                 in (filter (entryMatches hostname) passwords', passwords'))))"

text \<open>
  A URL parser for witnesses: the hostname of \<open>https://host/path\<close>, as \<open>new URL\<close> gives it
  for such URLs, and a failure for every other string.
\<close>

definition https_hostname :: "string \<Rightarrow> string option" where
  "https_hostname url =
     (if take 8 url = ''https://'' \<and> drop 8 url \<noteq> []
      then Some (takeWhile (\<lambda>c. c \<noteq> CHR ''/'') (drop 8 url))
      else None)"

section \<open>JavaScript values\<close>

text \<open>
  The values \<open>JSON.parse\<close> can return. Numbers are the integers (timestamps, versions and
  counters are all the vault stores); an absent property, JavaScript's \<open>undefined\<close>, is
  \<open>None\<close> of \<open>json option\<close>.
\<close>

datatype json =
    JNull
  | JBool bool
  | JNum int
  | JStr string
  | JArr "json list"
  | JObj "(string \<times> json) list"

text \<open>\<open>obj.name\<close> on a parsed object: with a repeated key the last occurrence counts.\<close>

definition member :: "(string \<times> json) list \<Rightarrow> string \<Rightarrow> json option" where
  "member ms name = map_of (rev ms) name"

text \<open>Truthiness, as \<open>!v\<close> and \<open>v && w\<close> test it.\<close>

fun truthy :: "json \<Rightarrow> bool" where
  "truthy JNull = False"
| "truthy (JBool b) = b"
| "truthy (JNum n) = (n \<noteq> 0)"
| "truthy (JStr s) = (s \<noteq> [])"
| "truthy (JArr xs) = True"
| "truthy (JObj ms) = True"

text \<open>Decimal digits of a number, as \<open>String(n)\<close> and string concatenation print an integer.\<close>

definition digitChar :: "int \<Rightarrow> char" where
  "digitChar d = ''0123456789'' ! nat d"

function digits_of :: "int \<Rightarrow> string" where
  "digits_of n =
     (if n < 10 then [digitChar n]
      else digits_of (n div 10) @ [digitChar (n mod 10)])"
  by pat_completeness auto
termination
  by (relation "measure nat") auto

declare digits_of.simps [simp del]

definition decimal :: "int \<Rightarrow> string" where
  "decimal i = (if i < 0 then CHR ''-'' # digits_of (- i) else digits_of i)"

text \<open>
  \<open>String(v)\<close>, the coercion \<open>JSON.parse\<close> applies to an argument that is not a string: an
  array prints its elements separated by commas, with \<open>null\<close> elements printed as nothing, and
  an object prints as \<open>[object Object]\<close>.
\<close>

fun js_toString :: "json \<Rightarrow> string" where
  "js_toString JNull = ''null''"
| "js_toString (JBool b) = (if b then ''true'' else ''false'')"
| "js_toString (JNum n) = decimal n"
| "js_toString (JStr s) = s"
| "js_toString (JArr xs) =
     join '','' (map (\<lambda>x. if x = JNull then [] else js_toString x) xs)"
| "js_toString (JObj ms) = ''[object Object]''"

section \<open>Vault state and its operations (app.js)\<close>





text \<open>A stored 2FA entry; \<open>website\<close> and \<open>username\<close> are present only on an entry linked to a credential.\<close>

record totp_entry =
  account :: string
  secret :: string
  issuer :: string
  timestamp :: int
  totp_website :: "string option"
  totp_username :: "string option"

text \<open>
  What an operation does besides changing the fields of the \<open>App\<close> object, in the order it
  does it: calls of \<open>saveVaultData\<close>, messages to the background script, renderings, alerts
  and messages shown.
\<close>

datatype 'c effect =
    SaveVaultData
  | UpdatePasswordsMessage "'c list"
  | RenderPasswordList "'c list"
  | RenderTOTPCodes
  | ShowTOTPModal
  | ClosePasswordModal
  | Alert string
  | ShowMessage string
  | UnlockVaultMessage string "'c list"
  | CheckExpiringPasswords
  | ShowScreen string

text \<open>
  The fields of the \<open>App\<close> object. The element types are parameters: the typed operations
  below work on the records the dialogs create, unlocking fills the collections with
  whatever JSON values the stored blobs held.
\<close>

record ('c, 't, 's) app =
  passwords :: "'c list"
  masterPassword :: "string option"
  isVaultUnlocked :: bool
  totpSecrets :: "'t list"
  sharedPasswords :: "'s list"
  selectedPassword :: "'c option"
  effects :: "'c effect list"

type_synonym vault = "(credential, totp_entry, unit) app"

text \<open>\<open>xs.findIndex(p)\<close>; \<open>None\<close> is the result \<open>-1\<close>.\<close>

fun findIndex :: "('a \<Rightarrow> bool) \<Rightarrow> 'a list \<Rightarrow> nat option" where
  "findIndex p [] = None"
| "findIndex p (x # xs) =
     (if p x then Some 0 else (case findIndex p xs of None \<Rightarrow> None | Some k \<Rightarrow> Some (Suc k)))"

text \<open>\<open>xs.splice(i, 1)\<close>.\<close>

definition splice1 :: "nat \<Rightarrow> 'a list \<Rightarrow> 'a list" where
  "splice1 i xs = take i xs @ drop (Suc i) xs"

text \<open>
  \<open>xs[i] = v\<close> for the index \<open>parseInt\<close> produced (\<open>None\<close> is \<open>NaN\<close>). A \<open>NaN\<close> or negative
  index sets a property and leaves the elements alone. An index past the end, which the edit
  dialog never sends since it takes the index from the rendered list, would leave empty
  slots before the new element; the list model has no empty slots and appends.
\<close>

definition array_store :: "'a list \<Rightarrow> int option \<Rightarrow> 'a \<Rightarrow> 'a list" where
  "array_store xs i v =
     (case i of
        None \<Rightarrow> xs
      | Some k \<Rightarrow> if k < 0 then xs
                  else if nat k < length xs then xs[nat k := v]
                  else xs @ [v])"

definition isSpace :: "char \<Rightarrow> bool" where
  "isSpace c = ((of_char c :: nat) \<in> {9, 10, 11, 12, 13, 32, 160})"

text \<open>\<open>s.trim()\<close>.\<close>

definition trim :: "string \<Rightarrow> string" where
  "trim s = rev (dropWhile isSpace (rev (dropWhile isSpace s)))"

text \<open>
  \<open>saveVaultData\<close> is asynchronous and is never awaited by the operations below; they only
  start it. It does nothing without an unlocked vault and a non-empty master password.
\<close>

definition saveVaultData :: "('c, 't, 's) app \<Rightarrow> ('c, 't, 's) app" where
  "saveVaultData st =
     (if \<not> isVaultUnlocked st \<or> masterPassword st = None \<or> masterPassword st = Some []
      then st
      else st\<lparr>effects := effects st @ [SaveVaultData]\<rparr>)"

text \<open>\<open>showTOTPModal\<close> only touches the dialog.\<close>

definition showTOTPModal :: "('c, 't, 's) app \<Rightarrow> ('c, 't, 's) app" where
  "showTOTPModal st =
     (if \<not> isVaultUnlocked st then st else st\<lparr>effects := effects st @ [ShowTOTPModal]\<rparr>)"

text \<open>What \<open>savePassword\<close> reads from the password dialog, and the clock.\<close>

record password_form =
  websiteInput :: string
  usernameInput :: string
  passwordInput :: string
  setupTOTP :: bool
  editing :: bool
  editIndex :: "int option"

definition savePassword :: "password_form \<Rightarrow> int \<Rightarrow> vault \<Rightarrow> vault completion" where
  "savePassword form now st =
     (if \<not> isVaultUnlocked st then Inr st
      else
        let w = trim (websiteInput form);
            u = trim (usernameInput form);
            pw = passwordInput form
        in if w = [] \<or> u = [] \<or> pw = []
           then Inr (st\<lparr>effects := effects st @ [Alert ''Please fill in all fields.'']\<rparr>)
           else
             let passwordObj = \<lparr>cred_id = None, website = w, username = u, password = pw,
                                lastUpdated = now, hasTOTP = setupTOTP form\<rparr>;
                 ps = (if editing form then array_store (passwords st) (editIndex form) passwordObj
                       else passwords st @ [passwordObj]);
                 st1 = saveVaultData (st\<lparr>passwords := ps\<rparr>);
                 st2 = st1\<lparr>effects := effects st1 @ [UpdatePasswordsMessage ps, RenderPasswordList ps]\<rparr>;
                 st3 = (if setupTOTP form
                        then showTOTPModal (st2\<lparr>selectedPassword := Some passwordObj\<rparr>)
                        else st2)
             in Inr (st3\<lparr>effects := effects st3 @ [ClosePasswordModal]\<rparr>))"

definition deletePassword :: "int \<Rightarrow> vault \<Rightarrow> vault completion" where
  "deletePassword index st =
     (if \<not> isVaultUnlocked st \<or> index < 0 \<or> index \<ge> int (length (passwords st)) then Inr st
      else
        let pw = passwords st ! nat index;
            ps = splice1 (nat index) (passwords st);
            ts = (if hasTOTP pw
                  then (case findIndex (\<lambda>totp. totp_website totp = Some (website pw) \<and>
                                                totp_username totp = Some (username pw))
                               (totpSecrets st) of
                          None \<Rightarrow> totpSecrets st
                        | Some totpIndex \<Rightarrow> splice1 totpIndex (totpSecrets st))
                  else totpSecrets st);
            st1 = saveVaultData (st\<lparr>passwords := ps, totpSecrets := ts\<rparr>)
        in Inr (st1\<lparr>effects := effects st1 @ [UpdatePasswordsMessage ps, RenderPasswordList ps]\<rparr>))"

text \<open>\<open>renderTOTPCodes\<close> only draws.\<close>

definition renderTOTPCodes :: "('c, 't, 's) app \<Rightarrow> ('c, 't, 's) app" where
  "renderTOTPCodes st =
     (if \<not> isVaultUnlocked st then st else st\<lparr>effects := effects st @ [RenderTOTPCodes]\<rparr>)"

text \<open>
  \<open>deleteTOTP\<close>. The test \<open>totp.website && totp.username\<close> holds when both are present and
  non-empty.
\<close>

definition truthyStr :: "string option \<Rightarrow> bool" where
  "truthyStr v = (v \<noteq> None \<and> v \<noteq> Some [])"

definition deleteTOTP :: "int \<Rightarrow> vault \<Rightarrow> vault completion" where
  "deleteTOTP index st =
     (if \<not> isVaultUnlocked st \<or> index < 0 \<or> index \<ge> int (length (totpSecrets st)) then Inr st
      else
        let totp = totpSecrets st ! nat index;
            ts = splice1 (nat index) (totpSecrets st);
            ps = (if truthyStr (totp_website totp) \<and> truthyStr (totp_username totp)
                  then (case findIndex (\<lambda>p. Some (website p) = totp_website totp \<and>
                                             Some (username p) = totp_username totp)
                               (passwords st) of
                          None \<Rightarrow> passwords st
                        | Some passwordIndex \<Rightarrow>
                            (passwords st)[passwordIndex := (passwords st ! passwordIndex)\<lparr>hasTOTP := False\<rparr>])
                  else passwords st)
        in Inr (renderTOTPCodes (saveVaultData (st\<lparr>passwords := ps, totpSecrets := ts\<rparr>))))"

text \<open>The state the constructor leaves, and an unlocked vault with one linked 2FA entry.\<close>

definition initial_app :: vault where
  "initial_app =
     \<lparr>passwords = [], masterPassword = None, isVaultUnlocked = False, totpSecrets = [],
      sharedPasswords = [], selectedPassword = None, effects = []\<rparr>"

definition example_vault :: vault where
  "example_vault =
     \<lparr>passwords =
        [\<lparr>cred_id = None, website = ''mail.example.com'', username = ''ann'', password = ''s3cret'',
          lastUpdated = 1700000000000, hasTOTP = False\<rparr>,
         \<lparr>cred_id = None, website = ''example.com'', username = ''ann'', password = ''hunter2'',
          lastUpdated = 1700000000000, hasTOTP = True\<rparr>],
      masterPassword = Some ''correct horse battery'',
      isVaultUnlocked = True,
      totpSecrets =
        [\<lparr>account = ''other'', secret = ''GEZDGNBVGY3TQOJQ'', issuer = ''other'',
          timestamp = 1700000000000, totp_website = None, totp_username = None\<rparr>,
         \<lparr>account = ''example.com (ann)'', secret = ''JBSWY3DPEHPK3PXP'', issuer = ''example.com'',
          timestamp = 1700000000000, totp_website = Some ''example.com'',
          totp_username = Some ''ann''\<rparr>],
      sharedPasswords = [], selectedPassword = None, effects = []\<rparr>"





definition example_form :: password_form where
  "example_form =
     \<lparr>websiteInput = ''example.org'', usernameInput = ''bob'', passwordInput = ''pw'',
      setupTOTP = False, editing = False, editIndex = None\<rparr>"

section \<open>Share packager (passwordSharing.js)\<close>

text \<open>The package that travels in the share link.\<close>

record share_package =
  pkg_website :: string
  pkg_username :: string
  encryptedPassword :: string
  created :: int
  expires :: int
  recipientEmail :: "string option"

text \<open>What opening a share returns.\<close>

record shared_credential =
  sc_website :: string
  sc_username :: string
  sc_password :: string

text \<open>
  The library and browser functions the packager calls are parameters:
  \<^item> \<open>btoa\<close> and \<open>atob\<close>, the latter raising on text that is not Base64;
  \<^item> \<open>stringifyPackage\<close> and \<open>parsePackage\<close>, that is \<open>JSON.stringify\<close> of a package and
    \<open>JSON.parse\<close> of the decoded text read through the properties the code uses, raising
    on text that is not JSON;
  \<^item> \<open>aesEncrypt\<close>, that is \<open>CryptoJS.AES.encrypt(text, passphrase).toString()\<close> with the
    random salt it draws as third argument;
  \<^item> \<open>aesDecryptUtf8\<close>, that is \<open>CryptoJS.AES.decrypt(text, passphrase).toString(CryptoJS.enc.Utf8)\<close>,
    which raises when the decrypted bytes are not UTF-8.
\<close>

record share_runtime =
  btoa :: "string \<Rightarrow> string"
  atob :: "string \<Rightarrow> string completion"
  stringifyPackage :: "share_package \<Rightarrow> string"
  parsePackage :: "string \<Rightarrow> share_package completion"
  aesEncrypt :: "string \<Rightarrow> string \<Rightarrow> string \<Rightarrow> string"
  aesDecryptUtf8 :: "string \<Rightarrow> string \<Rightarrow> string completion"

text \<open>\<open>generateRandomKey\<close>: one character per random byte.\<close>

definition keyChars :: string where
  "keyChars = ''ABCDEFGHIJKLMNOPQRSTUVWXYZabcdefghijklmnopqrstuvwxyz0123456789''"

definition generateRandomKey :: "8 word list \<Rightarrow> string" where
  "generateRandomKey randomValues = map (\<lambda>b. keyChars ! (unat b mod length keyChars)) randomValues"

text \<open>
  \<open>createShareablePassword\<close>; the twelve random bytes of the key, the salt of the cipher
  and the clock are inputs.
\<close>

definition createShareablePassword ::
  "share_runtime \<Rightarrow> credential \<Rightarrow> string option \<Rightarrow> 8 word list \<Rightarrow> string \<Rightarrow> int
     \<Rightarrow> share_package \<times> string" where
  "createShareablePassword rt passwordData recipient randomValues salt now =
     (let k = generateRandomKey randomValues
      in (\<lparr>pkg_website = website passwordData,
           pkg_username = username passwordData,
           encryptedPassword = aesEncrypt rt (password passwordData) k salt,
           created = now,
           expires = now + 7 * 24 * 60 * 60 * 1000,
           recipientEmail = recipient\<rparr>, k))"

definition generateShareURL :: "share_runtime \<Rightarrow> share_package \<Rightarrow> string" where
  "generateShareURL rt packageObj =
     ''https://aivault.app/share#'' @ btoa rt (stringifyPackage rt packageObj)"

text \<open>
  \<open>decodeShareURL\<close>. Every error raised in the body, its own or a library's, is caught and
  raised again as an \<open>Error\<close> whose message is the fixed prefix followed by the message caught.
\<close>

definition decodeShareURL_body ::
  "share_runtime \<Rightarrow> string \<Rightarrow> string \<Rightarrow> int \<Rightarrow> shared_credential completion" where
  "decodeShareURL_body rt shareURL k now =
     (case split_on CHR ''#'' shareURL of
        _ # hashPart # _ \<Rightarrow>
          if hashPart = [] then Inl (Error ''Invalid share URL'')
          else (case atob rt hashPart of
                  Inl e \<Rightarrow> Inl e
                | Inr packageData \<Rightarrow>
                    (case parsePackage rt packageData of
                       Inl e \<Rightarrow> Inl e
                     | Inr packageObj \<Rightarrow>
                         if expires packageObj < now
                         then Inl (Error ''This shared password has expired'')
                         else (case aesDecryptUtf8 rt (encryptedPassword packageObj) k of
                                 Inl e \<Rightarrow> Inl e
                               | Inr decryptedPassword \<Rightarrow>
                                   if decryptedPassword = []
                                   then Inl (Error ''Invalid decryption key'')
                                   else Inr \<lparr>sc_website = pkg_website packageObj,
                                             sc_username = pkg_username packageObj,
                                             sc_password = decryptedPassword\<rparr>)))
      | _ \<Rightarrow> Inl (Error ''Invalid share URL''))"

definition decodeShareURL ::
  "share_runtime \<Rightarrow> string \<Rightarrow> string \<Rightarrow> int \<Rightarrow> shared_credential completion" where
  "decodeShareURL rt shareURL k now =
     (case decodeShareURL_body rt shareURL k now of
        Inl (Error m) \<Rightarrow> Inl (Error (''Failed to decode shared password: '' @ m))
      | Inr r \<Rightarrow> Inr r)"

section \<open>Encryption module\<close>

type_synonym bytes = "8 word list"

text \<open>
  The \<open>key\<close> of a master key is a WebCrypto \<open>CryptoKey\<close> or a CryptoJS \<open>WordArray\<close>; both are
  modelled by their 32 bytes. The fields \<open>keyBytes\<close> and \<open>keyString\<close>, which nothing reads,
  are left out.
\<close>

datatype key_material = CryptoKey bytes | WordArray bytes

record master_key =
  key :: key_material
  useWebCrypto :: bool

text \<open>
  The built-ins the module calls are parameters:
  \<^item> \<open>JSON_parse\<close> (raising on text that is not JSON) and \<open>JSON_stringify\<close>;
  \<^item> \<open>hasSubtle\<close>, the test \<open>window.crypto && window.crypto.subtle\<close>;
  \<^item> \<open>subtleDeriveKey\<close>, the chain \<open>importKey\<close>, \<open>deriveKey\<close> (PBKDF2, the fixed salt,
    100000 iterations, SHA-256), \<open>exportKey\<close>, any of which may raise;
  \<^item> \<open>cjsPBKDF2\<close>, the same derivation by CryptoJS;
  \<^item> \<open>utf8Encode\<close> and \<open>utf8Decode\<close>, that is \<open>TextEncoder\<close> and \<open>TextDecoder\<close>;
  \<^item> \<open>subtleEncrypt\<close> and \<open>subtleDecrypt\<close>, AES-GCM with a 128-bit tag under a key and a
    nonce; decryption raises when the tag does not verify;
  \<^item> \<open>cjsEncrypt\<close>, that is \<open>CryptoJS.AES.encrypt(text, key, {iv, CBC, Pkcs7}).toString()\<close>;
  \<^item> \<open>cjsDecryptUtf8\<close>, that is \<open>CryptoJS.enc.Hex.parse(iv)\<close> followed by
    \<open>CryptoJS.AES.decrypt(data, key, {iv, CBC, Pkcs7}).toString(CryptoJS.enc.Utf8)\<close>, on the
    \<open>data\<close> and \<open>iv\<close> properties as the envelope has them (\<open>None\<close> when absent).
\<close>

record crypto_runtime =
  JSON_parse :: "string \<Rightarrow> json completion"
  JSON_stringify :: "json \<Rightarrow> string"
  hasSubtle :: bool
  subtleDeriveKey :: "string \<Rightarrow> bytes completion"
  cjsPBKDF2 :: "string \<Rightarrow> bytes"
  utf8Encode :: "string \<Rightarrow> bytes"
  utf8Decode :: "bytes \<Rightarrow> string"
  subtleEncrypt :: "key_material \<Rightarrow> bytes \<Rightarrow> bytes \<Rightarrow> bytes completion"
  subtleDecrypt :: "key_material \<Rightarrow> bytes \<Rightarrow> bytes \<Rightarrow> bytes completion"
  cjsEncrypt :: "string \<Rightarrow> key_material \<Rightarrow> bytes \<Rightarrow> string completion"
  cjsDecryptUtf8 :: "json option \<Rightarrow> key_material \<Rightarrow> json option \<Rightarrow> string completion"

text \<open>
  The random values one call of \<open>encrypt\<close> may draw: the 12-byte nonce of the WebCrypto
  path, the 16-byte IV of the CryptoJS path, and the 16-byte IV the \<open>catch\<close> block draws when
  it encrypts again.
\<close>

record randomness =
  ivGcm :: bytes
  ivCbc :: bytes
  ivRetry :: bytes

definition cjsMasterKey :: "crypto_runtime \<Rightarrow> string \<Rightarrow> master_key" where
  "cjsMasterKey rt masterPwd =
     \<lparr>key = WordArray (cjsPBKDF2 rt masterPwd), useWebCrypto = False\<rparr>"

definition deriveMasterKey :: "crypto_runtime \<Rightarrow> string \<Rightarrow> master_key" where
  "deriveMasterKey rt masterPwd =
     (if hasSubtle rt
      then (case subtleDeriveKey rt masterPwd of
              Inl e \<Rightarrow> cjsMasterKey rt masterPwd
            | Inr keyBytes \<Rightarrow> \<lparr>key = CryptoKey keyBytes, useWebCrypto = True\<rparr>)
      else cjsMasterKey rt masterPwd)"

subsection \<open>Hexadecimal text\<close>

definition hexDigit :: "int \<Rightarrow> char" where
  "hexDigit n = ''0123456789abcdef'' ! nat (n mod 16)"

definition hexVal :: "char \<Rightarrow> int option" where
  "hexVal c =
     (let n = (of_char c :: int)
      in if 48 \<le> n \<and> n \<le> 57 then Some (n - 48)
         else if 97 \<le> n \<and> n \<le> 102 then Some (n - 87)
         else if 65 \<le> n \<and> n \<le> 70 then Some (n - 55)
         else None)"

text \<open>\<open>b.toString(16).padStart(2, '0')\<close> on a byte, and the \<open>join('')\<close> over an array.\<close>

definition byteToHex :: "8 word \<Rightarrow> string" where
  "byteToHex b = [hexDigit (uint b div 16), hexDigit (uint b mod 16)]"

definition bytesToHex :: "bytes \<Rightarrow> string" where
  "bytesToHex bs = concat (map byteToHex bs)"

text \<open>
  \<open>s.match(/.{1,2}/g)\<close>: runs of one or two characters, none of them a line terminator. The
  empty list stands for the \<open>null\<close> that \<open>match\<close> returns when nothing matches.
\<close>

definition isLineTerminator :: "char \<Rightarrow> bool" where
  "isLineTerminator c = ((of_char c :: int) \<in> {10, 13})"

fun matchPairs :: "string \<Rightarrow> string list" where
  "matchPairs [] = []"
| "matchPairs [a] = (if isLineTerminator a then [] else [[a]])"
| "matchPairs (a # b # r) =
     (if isLineTerminator a then matchPairs (b # r)
      else if isLineTerminator b then [a] # matchPairs r
      else [a, b] # matchPairs r)"

text \<open>
  \<open>parseInt(s, 16)\<close>: leading white space, a sign, an optional \<open>0x\<close>, then the longest run of
  hexadecimal digits; \<open>None\<close> is \<open>NaN\<close>.
\<close>

definition parseInt16 :: "string \<Rightarrow> int option" where
  "parseInt16 s =
     (let s1 = dropWhile isSpace s;
          s2 = (if s1 \<noteq> [] \<and> (hd s1 = CHR ''-'' \<or> hd s1 = CHR ''+'') then tl s1 else s1);
          s3 = (if take 2 s2 = ''0x'' \<or> take 2 s2 = ''0X'' then drop 2 s2 else s2);
          ds = takeWhile (\<lambda>c. hexVal c \<noteq> None) s3;
          v = foldl (\<lambda>a c. 16 * a + the (hexVal c)) 0 ds
      in if ds = [] then None
         else if s1 \<noteq> [] \<and> hd s1 = CHR ''-'' then Some (- v)
         else Some v)"

text \<open>Storing a number in a \<open>Uint8Array\<close>: \<open>NaN\<close> becomes 0, everything else wraps.\<close>

definition toUint8 :: "int option \<Rightarrow> 8 word" where
  "toUint8 v = (case v of None \<Rightarrow> 0 | Some n \<Rightarrow> word_of_int n)"

text \<open>
  \<open>new Uint8Array(s.match(/.{1,2}/g).map(byte => parseInt(byte, 16)))\<close>; \<open>None\<close> is the
  \<open>TypeError\<close> of calling \<open>map\<close> on \<open>null\<close>.
\<close>

definition hexToBytes :: "string \<Rightarrow> bytes option" where
  "hexToBytes s =
     (let ms = matchPairs s
      in if ms = [] then None else Some (map (\<lambda>m. toUint8 (parseInt16 m)) ms))"

subsection \<open>Encrypting and decrypting\<close>

definition envelope :: "string \<Rightarrow> string \<Rightarrow> json" where
  "envelope iv c = JObj [(''iv'', JStr iv), (''data'', JStr c), (''version'', JNum 1)]"

text \<open>The CryptoJS path of \<open>encrypt\<close>, which is also the body of its \<open>catch\<close> block.\<close>

definition encryptCbc ::
  "crypto_runtime \<Rightarrow> string \<Rightarrow> master_key \<Rightarrow> bytes \<Rightarrow> string completion" where
  "encryptCbc rt dataString masterKey iv =
     (case cjsEncrypt rt dataString (key masterKey) iv of
        Inl e \<Rightarrow> Inl e
      | Inr c \<Rightarrow> Inr (JSON_stringify rt (envelope (bytesToHex iv) c)))"

text \<open>
  \<open>encrypt\<close>: a string is encrypted as it is, any other value as its JSON text. An error in
  either path is caught and the CryptoJS path is run with a fresh IV; an error there is
  raised to the caller.
\<close>

definition encrypt ::
  "crypto_runtime \<Rightarrow> json \<Rightarrow> master_key \<Rightarrow> randomness \<Rightarrow> string completion" where
  "encrypt rt d masterKey rnd =
     (let dataString = (case d of JStr s \<Rightarrow> s | _ \<Rightarrow> JSON_stringify rt d)
      in if useWebCrypto masterKey
         then (case subtleEncrypt rt (key masterKey) (ivGcm rnd) (utf8Encode rt dataString) of
                 Inl e \<Rightarrow> encryptCbc rt dataString masterKey (ivRetry rnd)
               | Inr encryptedBuffer \<Rightarrow>
                   Inr (JSON_stringify rt
                          (envelope (bytesToHex (ivGcm rnd)) (bytesToHex encryptedBuffer))))
         else (case encryptCbc rt dataString masterKey (ivCbc rnd) of
                 Inl e \<Rightarrow> encryptCbc rt dataString masterKey (ivRetry rnd)
               | Inr r \<Rightarrow> Inr r))"

text \<open>\<open>obj.name\<close> on a value that is not \<open>null\<close>: only an object has the properties read here.\<close>

definition getProp :: "json \<Rightarrow> string \<Rightarrow> json option" where
  "getProp v name = (case v of JObj ms \<Rightarrow> member ms name | _ \<Rightarrow> None)"

text \<open>\<open>try { return JSON.parse(text) } catch { return text }\<close>.\<close>

definition parseOrText :: "crypto_runtime \<Rightarrow> string \<Rightarrow> json" where
  "parseOrText rt t = (case JSON_parse rt t of Inl e \<Rightarrow> JStr t | Inr v \<Rightarrow> v)"

text \<open>
  The body of \<open>decrypt\<close>. Its argument comes from storage and may be \<open>null\<close>, which
  \<open>JSON.parse\<close> reads as the text \<open>null\<close>. Destructuring \<open>null\<close>, calling \<open>match\<close> on a
  property that is not a string and calling \<open>map\<close> on \<open>null\<close> raise a \<open>TypeError\<close>.
\<close>

definition decrypt_body ::
  "crypto_runtime \<Rightarrow> string option \<Rightarrow> master_key \<Rightarrow> json completion" where
  "decrypt_body rt encryptedData masterKey =
     (case JSON_parse rt (case encryptedData of None \<Rightarrow> ''null'' | Some s \<Rightarrow> s) of
        Inl e \<Rightarrow> Inl e
      | Inr encryptedObj \<Rightarrow>
          if encryptedObj = JNull then Inl (Error ''TypeError'')
          else
            let iv = getProp encryptedObj ''iv''; d = getProp encryptedObj ''data''
            in if useWebCrypto masterKey
               then (case (iv, d) of
                       (Some (JStr ivHex), Some (JStr dataHex)) \<Rightarrow>
                         (case (hexToBytes ivHex, hexToBytes dataHex) of
                            (Some ivArray, Some encryptedArray) \<Rightarrow>
                              (case subtleDecrypt rt (key masterKey) ivArray encryptedArray of
                                 Inl e \<Rightarrow> Inl e
                               | Inr decryptedBuffer \<Rightarrow>
                                   Inr (parseOrText rt (utf8Decode rt decryptedBuffer)))
                          | _ \<Rightarrow> Inl (Error ''TypeError''))
                     | _ \<Rightarrow> Inl (Error ''TypeError''))
               else (case cjsDecryptUtf8 rt d (key masterKey) iv of
                       Inl e \<Rightarrow> Inl e
                     | Inr decryptedString \<Rightarrow> Inr (parseOrText rt decryptedString)))"

text \<open>\<open>decrypt\<close>: whatever the body raises is replaced by one fixed error.\<close>

definition decryptError :: js_error where
  "decryptError = Error ''Failed to decrypt data. Possible incorrect password or corrupted data.''"

definition decrypt ::
  "crypto_runtime \<Rightarrow> string option \<Rightarrow> master_key \<Rightarrow> json completion" where
  "decrypt rt encryptedData masterKey =
     (case decrypt_body rt encryptedData masterKey of
        Inl e \<Rightarrow> Inl decryptError
      | Inr v \<Rightarrow> Inr v)"

subsection \<open>The verification token\<close>

definition verificationPrefix :: string where
  "verificationPrefix = ''AIVault-Verification-''"


text \<open>
  \<open>verifyMasterPassword\<close> returns \<open>decrypted && decrypted.startsWith(prefix)\<close>: a falsy
  decrypted value is returned as it is; on a truthy value that is not a string,
  \<open>startsWith\<close> is not a function, and that \<open>TypeError\<close>, like every error of \<open>decrypt\<close>, is
  caught and answered by \<open>false\<close>.
\<close>

definition verifyMasterPassword :: "crypto_runtime \<Rightarrow> string \<Rightarrow> string option \<Rightarrow> json" where
  "verifyMasterPassword rt masterPwd verificationString =
     (case decrypt rt verificationString (deriveMasterKey rt masterPwd) of
        Inl e \<Rightarrow> JBool False
      | Inr decrypted \<Rightarrow>
          if \<not> truthy decrypted then decrypted
          else (case decrypted of
                  JStr s \<Rightarrow>
                    JBool (take (length verificationPrefix) s = verificationPrefix)
                | _ \<Rightarrow> JBool False))"

text \<open>
  What the theorems ask of the runtime for one text, one key and one draw of random values:
  the cipher of the path the key selects encrypts the text, \<open>JSON.parse\<close> reads the printed
  envelope back, and the cipher decrypts to the text again (through \<open>TextEncoder\<close> and
  \<open>TextDecoder\<close> on the WebCrypto path). A nonce and a ciphertext are never empty.
\<close>

definition roundTrips :: "crypto_runtime \<Rightarrow> master_key \<Rightarrow> randomness \<Rightarrow> string \<Rightarrow> bool" where
  "roundTrips rt masterKey rnd t =
     (if useWebCrypto masterKey
      then (case subtleEncrypt rt (key masterKey) (ivGcm rnd) (utf8Encode rt t) of
              Inl e \<Rightarrow> False
            | Inr buf \<Rightarrow>
                ivGcm rnd \<noteq> [] \<and> buf \<noteq> []
                \<and> JSON_parse rt (JSON_stringify rt (envelope (bytesToHex (ivGcm rnd)) (bytesToHex buf)))
                    = Inr (envelope (bytesToHex (ivGcm rnd)) (bytesToHex buf))
                \<and> subtleDecrypt rt (key masterKey) (ivGcm rnd) buf = Inr (utf8Encode rt t)
                \<and> utf8Decode rt (utf8Encode rt t) = t)
      else (case cjsEncrypt rt t (key masterKey) (ivCbc rnd) of
              Inl e \<Rightarrow> False
            | Inr c \<Rightarrow>
                JSON_parse rt (JSON_stringify rt (envelope (bytesToHex (ivCbc rnd)) c))
                  = Inr (envelope (bytesToHex (ivCbc rnd)) c)
                \<and> cjsDecryptUtf8 rt (Some (JStr c)) (key masterKey)
                      (Some (JStr (bytesToHex (ivCbc rnd)))) = Inr t))"

section \<open>Storage and unlocking (storage module, app.js)\<close>

text \<open>\<open>localStorage\<close>: \<open>getItem\<close> gives the stored text or \<open>null\<close>.\<close>

type_synonym storage = "string \<Rightarrow> string option"

definition VERIFICATION_KEY :: string where "VERIFICATION_KEY = ''aivault_verification''"
definition VAULT_DATA_KEY :: string where "VAULT_DATA_KEY = ''aivault_vault_data''"
definition TOTP_SECRETS_KEY :: string where "TOTP_SECRETS_KEY = ''aivault_totp_secrets''"
definition SHARED_PASSWORDS_KEY :: string where "SHARED_PASSWORDS_KEY = ''aivault_shared_passwords''"

definition getVerificationString :: "storage \<Rightarrow> string option" where
  "getVerificationString ls = ls VERIFICATION_KEY"

definition getTOTPSecrets :: "storage \<Rightarrow> string option" where
  "getTOTPSecrets ls = ls TOTP_SECRETS_KEY"

definition getSharedPasswords :: "storage \<Rightarrow> string option" where
  "getSharedPasswords ls = ls SHARED_PASSWORDS_KEY"

text \<open>\<open>parseInt(s, 10)\<close>; \<open>None\<close> is \<open>NaN\<close>.\<close>

definition parseInt10 :: "string \<Rightarrow> int option" where
  "parseInt10 s =
     (let s1 = dropWhile isSpace s;
          s2 = (if s1 \<noteq> [] \<and> (hd s1 = CHR ''-'' \<or> hd s1 = CHR ''+'') then tl s1 else s1);
          ds = takeWhile (\<lambda>c. 48 \<le> (of_char c :: int) \<and> (of_char c :: int) \<le> 57) s2;
          v = foldl (\<lambda>a c. 10 * a + (of_char c - 48)) 0 ds
      in if ds = [] then None
         else if s1 \<noteq> [] \<and> hd s1 = CHR ''-'' then Some (- v)
         else Some v)"

text \<open>
  \<open>getVaultData\<close>: a vault stored in chunks is put together again, and any missing or empty
  chunk gives \<open>null\<close>; otherwise the text under the vault key, \<open>null\<close> when missing or empty.
\<close>

definition getVaultData :: "storage \<Rightarrow> string option" where
  "getVaultData ls =
     (if truthyStr (ls (VAULT_DATA_KEY @ ''_chunks''))
      then (case parseInt10 (the (ls (VAULT_DATA_KEY @ ''_chunks''))) of
              None \<Rightarrow> None
            | Some numChunks \<Rightarrow>
                if numChunks \<le> 0 then None
                else
                  let chunks = map (\<lambda>i. ls (VAULT_DATA_KEY @ ''_'' @ decimal i)) [0..numChunks - 1]
                  in if list_all truthyStr chunks then Some (concat (map the chunks)) else None)
      else if truthyStr (ls VAULT_DATA_KEY) then ls VAULT_DATA_KEY else None)"

text \<open>
  \<open>JSON.parse(value)\<close> on what \<open>decrypt\<close> returned, followed by the \<open>Array.isArray\<close> test:
  the value is first coerced to a string; an error of the parser is passed on, a parsed
  value that is not an array is replaced by the empty array.
\<close>

definition parseArray :: "crypto_runtime \<Rightarrow> json \<Rightarrow> json list completion" where
  "parseArray rt decrypted =
     (case JSON_parse rt (js_toString decrypted) of
        Inl e \<Rightarrow> Inl e
      | Inr v \<Rightarrow> (case v of JArr xs \<Rightarrow> Inr xs | _ \<Rightarrow> Inr []))"

text \<open>
  The callback that gives an entry a \<open>lastUpdated\<close> when it has none. Class bodies are strict
  code: reading a property of \<open>null\<close> and setting one on a number, a string or a boolean
  raise a \<open>TypeError\<close>.
\<close>

definition setMember :: "(string \<times> json) list \<Rightarrow> string \<Rightarrow> json \<Rightarrow> (string \<times> json) list" where
  "setMember ms name v =
     (if name \<in> fst ` set ms then map (\<lambda>(k, w). if k = name then (k, v) else (k, w)) ms
      else ms @ [(name, v)])"

fun addLastUpdated :: "int \<Rightarrow> json \<Rightarrow> json completion" where
  "addLastUpdated now (JObj ms) =
     (case member ms ''lastUpdated'' of
        None \<Rightarrow> Inr (JObj (setMember ms ''lastUpdated'' (JNum now)))
      | Some v \<Rightarrow> if truthy v then Inr (JObj ms)
                  else Inr (JObj (setMember ms ''lastUpdated'' (JNum now))))"
| "addLastUpdated now (JArr xs) = Inr (JArr xs)"
| "addLastUpdated now v = Inl (Error ''TypeError'')"

fun mapCompletion :: "('a \<Rightarrow> 'b completion) \<Rightarrow> 'a list \<Rightarrow> 'b list completion" where
  "mapCompletion f [] = Inr []"
| "mapCompletion f (x # xs) =
     (case f x of
        Inl e \<Rightarrow> Inl e
      | Inr y \<Rightarrow> (case mapCompletion f xs of Inl e \<Rightarrow> Inl e | Inr ys \<Rightarrow> Inr (y # ys)))"

text \<open>
  The three collections as \<open>unlockVault\<close> reads them, each with the messages it shows. Only
  the credentials get a message; a missing or empty blob gives the empty collection.
\<close>

definition loadPasswords ::
  "crypto_runtime \<Rightarrow> string option \<Rightarrow> master_key \<Rightarrow> json list \<times> json effect list" where
  "loadPasswords rt encryptedData masterKey =
     (if encryptedData = None then ([], [])
      else (case decrypt rt encryptedData masterKey of
              Inl e \<Rightarrow>
                ([], [ShowMessage ''Error decrypting vault data. Creating a new empty vault.''])
            | Inr decryptedData \<Rightarrow>
                (case parseArray rt decryptedData of
                   Inl e \<Rightarrow>
                     ([], [ShowMessage
                             ''Your vault data appears to be corrupted. Creating a new empty vault.''])
                 | Inr xs \<Rightarrow> (xs, []))))"

definition loadCollection :: "crypto_runtime \<Rightarrow> string option \<Rightarrow> master_key \<Rightarrow> json list" where
  "loadCollection rt encrypted masterKey =
     (if \<not> truthyStr encrypted then []
      else (case decrypt rt encrypted masterKey of
              Inl e \<Rightarrow> []
            | Inr decrypted \<Rightarrow>
                (case parseArray rt decrypted of Inl e \<Rightarrow> [] | Inr xs \<Rightarrow> xs)))"

text \<open>
  \<open>unlockVault\<close>, with the text of the password field and the clock as inputs. An error of
  the callback above reaches the outer \<open>catch\<close>: the credentials stay as parsed, nothing
  else has been assigned, and the vault stays locked.
\<close>

definition unlockVault ::
  "crypto_runtime \<Rightarrow> storage \<Rightarrow> string \<Rightarrow> int \<Rightarrow> (json, json, json) app
     \<Rightarrow> (json, json, json) app" where
  "unlockVault rt ls pw now st =
     (if pw = []
      then st\<lparr>effects := effects st @ [ShowMessage ''Please enter your master password.'']\<rparr>
      else if \<not> truthy (verifyMasterPassword rt pw (getVerificationString ls))
      then st\<lparr>effects := effects st @ [ShowMessage ''Incorrect master password.'']\<rparr>
      else
        let masterKey = deriveMasterKey rt pw;
            encryptedData = getVaultData ls;
            loaded = loadPasswords rt encryptedData masterKey
        in (case mapCompletion (addLastUpdated now) (fst loaded) of
              Inl (Error m) \<Rightarrow>
                st\<lparr>passwords := fst loaded,
                   effects := effects st @ snd loaded
                              @ [ShowMessage (''Error unlocking vault: '' @ m)]\<rparr>
            | Inr ps \<Rightarrow>
                let st1 = st\<lparr>passwords := ps,
                               totpSecrets := loadCollection rt (getTOTPSecrets ls) masterKey,
                               sharedPasswords := loadCollection rt (getSharedPasswords ls) masterKey,
                               masterPassword := Some pw,
                               isVaultUnlocked := True,
                               effects := effects st @ snd loaded\<rparr>;
                    st2 = (if encryptedData = None then saveVaultData st1 else st1)
                in st2\<lparr>effects := effects st2 @
                        [UnlockVaultMessage pw ps, CheckExpiringPasswords,
                         RenderPasswordList ps, ShowScreen ''vaultScreen'']\<rparr>))"

section \<open>TOTP generator\<close>

text \<open>
  \<open>s.toUpperCase()\<close> on the characters up to U+00FF. The sharp s becomes \<open>SS\<close>; the two
  letters whose capitals lie beyond U+00FF are left as they are, which makes no difference
  below, where every character outside the Base32 alphabet is skipped.
\<close>

definition toUpperChar :: "char \<Rightarrow> string" where
  "toUpperChar c =
     (let n = (of_char c :: int)
      in if (97 \<le> n \<and> n \<le> 122) \<or> (224 \<le> n \<and> n \<le> 254 \<and> n \<noteq> 247) then [char_of (n - 32)]
         else if n = 223 then ''SS''
         else [c])"

definition toUpperCase :: "string \<Rightarrow> string" where
  "toUpperCase s = concat (map toUpperChar s)"

text \<open>\<open>base32Chars.indexOf(c)\<close>; \<open>None\<close> is \<open>-1\<close>.\<close>

definition base32Val :: "char \<Rightarrow> int option" where
  "base32Val c =
     (let n = (of_char c :: int)
      in if 65 \<le> n \<and> n \<le> 90 then Some (n - 65)
         else if 50 \<le> n \<and> n \<le> 55 then Some (n - 24)
         else None)"

text \<open>\<open>val.toString(2).padStart(5, '0')\<close> for a value below 32.\<close>

definition bitChar :: "int \<Rightarrow> char" where
  "bitChar b = (if b mod 2 = 1 then CHR ''1'' else CHR ''0'')"

definition toBits5 :: "int \<Rightarrow> string" where
  "toBits5 v = [bitChar (v div 16), bitChar (v div 8), bitChar (v div 4), bitChar (v div 2), bitChar v]"

definition bitVal :: "char \<Rightarrow> int" where
  "bitVal c = (if c = CHR ''1'' then 1 else 0)"

text \<open>
  The second loop of \<open>base32ToHex\<close>: one hexadecimal digit for every four bits; a last chunk
  of fewer than four bits is dropped.
\<close>

fun hexOfBits :: "string \<Rightarrow> string" where
  "hexOfBits (a # b # c # d # r) =
     hexDigit (8 * bitVal a + 4 * bitVal b + 2 * bitVal c + bitVal d) # hexOfBits r"
| "hexOfBits _ = []"

definition base32Bits :: "string \<Rightarrow> string" where
  "base32Bits base32 =
     concat (map (\<lambda>c. case base32Val c of None \<Rightarrow> [] | Some v \<Rightarrow> toBits5 v) base32)"

definition base32ToHex :: "string \<Rightarrow> string" where
  "base32ToHex base32 = hexOfBits (base32Bits base32)"

text \<open>\<open>num.toString(16)\<close> on an integer.\<close>

function hexDigits :: "int \<Rightarrow> string" where
  "hexDigits n = (if n < 16 then [hexDigit n] else hexDigits (n div 16) @ [hexDigit (n mod 16)])"
  by pat_completeness auto
termination
  by (relation "measure nat") auto

declare hexDigits.simps [simp del]

definition toStringHex :: "int \<Rightarrow> string" where
  "toStringHex n = (if n < 0 then CHR ''-'' # hexDigits (- n) else hexDigits n)"

definition padStart :: "nat \<Rightarrow> char \<Rightarrow> string \<Rightarrow> string" where
  "padStart n c s = replicate (n - length s) c @ s"

text \<open>
  \<open>intToHex\<close> on the text \<open>num.toString(16)\<close>: padded to sixteen characters, of which the loop
  copies the first sixteen.
\<close>

definition intToHexText :: "string \<Rightarrow> string" where
  "intToHexText t = take 16 (padStart 16 CHR ''0'' t)"

definition intToHex :: "int \<Rightarrow> string" where
  "intToHex num = intToHexText (toStringHex num)"

text \<open>
  \<open>Math.floor(now / period).toString(16)\<close> for whole numbers: a zero period divides to an
  infinity or to \<open>NaN\<close>, which print as words.
\<close>

definition counterText :: "int \<Rightarrow> int \<Rightarrow> string" where
  "counterText now period =
     (if period = 0
      then (if now > 0 then ''Infinity'' else if now < 0 then ''-Infinity'' else ''NaN'')
      else toStringHex (now div period))"

text \<open>
  Dynamic truncation as the code does it on the hexadecimal text of the hash: the last
  character gives the offset, the eight characters from twice the offset are read as a
  number, and \<open>& 0x7fffffff\<close> keeps its low 31 bits. A \<open>NaN\<close> offset reads from the start and a
  \<open>NaN\<close> number gives 0.
\<close>

definition truncateHex :: "string \<Rightarrow> int" where
  "truncateHex hmac =
     (let offset = (case parseInt16 (if hmac = [] then [] else [last hmac]) of
                      None \<Rightarrow> 0
                    | Some n \<Rightarrow> n)
      in case parseInt16 (take 8 (drop (nat (offset * 2)) hmac)) of
           None \<Rightarrow> 0
         | Some n \<Rightarrow> n mod 2 ^ 31)"

text \<open>
  \<open>generateTOTP\<close>. The \<open>jsSHA\<close> object of the repository stores the key and the message and
  hands both to \<open>CryptoJS.HmacSHA1(CryptoJS.enc.Hex.parse(message), CryptoJS.enc.Hex.parse(key))\<close>,
  whose hexadecimal text it returns; that function of the message text and the key text is
  the parameter \<open>hmacSHA1\<close>. The clock, in milliseconds, is an input; the period and the number
  of digits are whole numbers.
\<close>

definition generateTOTP ::
  "(string \<Rightarrow> string \<Rightarrow> string) \<Rightarrow> string \<Rightarrow> int \<Rightarrow> nat \<Rightarrow> int \<Rightarrow> string" where
  "generateTOTP hmacSHA1 sec period digits nowMs =
     (let cleaned = toUpperCase (filter (\<lambda>c. \<not> isSpace c) sec);
          now = nowMs div 1000;
          hexSecret = base32ToHex cleaned;
          counterHex = intToHexText (counterText now period);
          hmac = hmacSHA1 counterHex hexSecret;
          otp = truncateHex hmac mod 10 ^ digits
      in padStart digits CHR ''0'' (decimal otp))"

text \<open>
  Base32 decoding as RFC 4648 defines it, for comparison: the five bits of each character
  in turn, cut into bytes of eight bits; bits left over at the end are dropped.
\<close>

fun bytesOfBits :: "string \<Rightarrow> bytes" where
  "bytesOfBits (a # b # c # d # e # f # g # h # r) =
     word_of_int (128 * bitVal a + 64 * bitVal b + 32 * bitVal c + 16 * bitVal d
                  + 8 * bitVal e + 4 * bitVal f + 2 * bitVal g + bitVal h) # bytesOfBits r"
| "bytesOfBits _ = []"

definition rfc_base32Decode :: "string \<Rightarrow> bytes" where
  "rfc_base32Decode s = bytesOfBits (base32Bits s)"

section \<open>A reference runtime\<close>

text \<open>
  The theorems below hold for every runtime. To instantiate them, this section writes a
  runtime out: \<open>JSON.stringify\<close> and \<open>JSON.parse\<close> on the values of type \<open>json\<close>, and
  \<open>btoa\<close> and \<open>atob\<close>. The ciphers are stand-ins that keep what the code relies on:
  decrypting under the key that encrypted gives the text back; under another key the
  authenticated cipher raises and the unauthenticated ones give the empty text.
\<close>

subsection \<open>JSON text\<close>

text \<open>A string literal: quote and backslash escaped, control characters as \<open>JSON.stringify\<close> writes them.\<close>

definition quoteChar :: "char \<Rightarrow> string" where
  "quoteChar c =
     (let n = (of_char c :: nat)
      in if c = CHR 0x22 then [CHR 0x5C, CHR 0x22]
         else if c = CHR 0x5C then [CHR 0x5C, CHR 0x5C]
         else if n = 8 then [CHR 0x5C, CHR ''b'']
         else if n = 9 then [CHR 0x5C, CHR ''t'']
         else if n = 10 then [CHR 0x5C, CHR ''n'']
         else if n = 12 then [CHR 0x5C, CHR ''f'']
         else if n = 13 then [CHR 0x5C, CHR ''r'']
         else if n < 32 then [CHR 0x5C, CHR ''u'', CHR ''0'', CHR ''0'', hexDigit (int n div 16), hexDigit (int n)]
         else [c])"

definition quote :: "string \<Rightarrow> string" where
  "quote s = CHR 0x22 # concat (map quoteChar s) @ [CHR 0x22]"

fun stringify :: "json \<Rightarrow> string" where
  "stringify JNull = ''null''"
| "stringify (JBool b) = (if b then ''true'' else ''false'')"
| "stringify (JNum n) = decimal n"
| "stringify (JStr s) = quote s"
| "stringify (JArr xs) = ''['' @ join '','' (map stringify xs) @ '']''"
| "stringify (JObj ms) =
     ''{'' @ join '','' (map (\<lambda>(k, v). quote k @ '':'' @ stringify v) ms) @ ''}''"

definition isJsonSpace :: "char \<Rightarrow> bool" where
  "isJsonSpace c = ((of_char c :: nat) \<in> {9, 10, 13, 32})"

definition skipSpace :: "string \<Rightarrow> string" where
  "skipSpace s = dropWhile isJsonSpace s"

definition isDigit :: "char \<Rightarrow> bool" where
  "isDigit c = (let n = (of_char c :: nat) in 48 \<le> n \<and> n \<le> 57)"

definition digitVal :: "char \<Rightarrow> int" where
  "digitVal c = of_char c - 48"

text \<open>The rest of a string literal after its opening quote, and what follows it.\<close>

fun parseChars :: "string \<Rightarrow> (string \<times> string) option" where
  "parseChars [] = None"
| "parseChars (c # r) =
     (if c = CHR 0x22 then Some ([], r)
      else if c = CHR 0x5C then
        (case r of
           [] \<Rightarrow> None
         | e # r' \<Rightarrow>
             (if e = CHR ''u'' then
                (case r' of
                   a # b # x # y # r'' \<Rightarrow>
                     (case (hexVal a, hexVal b, hexVal x, hexVal y) of
                        (Some h3, Some h2, Some h, Some l) \<Rightarrow>
                          if h3 = 0 \<and> h2 = 0
                          then map_option (\<lambda>(s, t). (char_of (16 * h + l) # s, t)) (parseChars r'')
                          else None
                      | _ \<Rightarrow> None)
                 | _ \<Rightarrow> None)
              else
                (case (if e = CHR 0x22 then Some e
                       else if e = CHR 0x5C then Some e
                       else if e = CHR ''/'' then Some e
                       else if e = CHR ''b'' then Some (CHR 0x08)
                       else if e = CHR ''f'' then Some (CHR 0x0C)
                       else if e = CHR ''n'' then Some (CHR 0x0A)
                       else if e = CHR ''r'' then Some (CHR 0x0D)
                       else if e = CHR ''t'' then Some (CHR 0x09)
                       else None) of
                   None \<Rightarrow> None
                 | Some d \<Rightarrow> map_option (\<lambda>(s, t). (d # s, t)) (parseChars r'))))
      else if (of_char c :: nat) < 32 then None
      else map_option (\<lambda>(s, t). (c # s, t)) (parseChars r))"

text \<open>
  An integer literal. A fraction or an exponent is outside the integers of \<open>json\<close> and is not
  read.
\<close>

definition parseNat :: "string \<Rightarrow> (int \<times> string) option" where
  "parseNat s =
     (let ds = takeWhile isDigit s; r = dropWhile isDigit s
      in if ds = [] \<or> (length ds > 1 \<and> hd ds = CHR ''0'') then None
         else if r \<noteq> [] \<and> hd r \<in> {CHR ''.'', CHR ''e'', CHR ''E''} then None
         else Some (foldl (\<lambda>a c. 10 * a + digitVal c) 0 ds, r))"

text \<open>
  The value parser, with a bound on the nesting of calls; \<open>parseJSON\<close> gives it more than
  any text of that length can use.
\<close>

fun parseValue :: "nat \<Rightarrow> string \<Rightarrow> (json \<times> string) option"
  and parseElements :: "nat \<Rightarrow> string \<Rightarrow> (json list \<times> string) option"
  and parseMembers :: "nat \<Rightarrow> string \<Rightarrow> ((string \<times> json) list \<times> string) option" where
  "parseValue 0 s = None"
| "parseValue (Suc n) s =
     (case skipSpace s of
        [] \<Rightarrow> None
      | c # r \<Rightarrow>
          if c = CHR ''{'' then
            (case skipSpace r of
               [] \<Rightarrow> None
             | d # r' \<Rightarrow> if d = CHR ''}'' then Some (JObj [], r')
                         else map_option (\<lambda>(ms, t). (JObj ms, t)) (parseMembers n r))
          else if c = CHR ''['' then
            (case skipSpace r of
               [] \<Rightarrow> None
             | d # r' \<Rightarrow> if d = CHR '']'' then Some (JArr [], r')
                         else map_option (\<lambda>(xs, t). (JArr xs, t)) (parseElements n r))
          else if c = CHR 0x22 then map_option (\<lambda>(x, t). (JStr x, t)) (parseChars r)
          else if take 4 (c # r) = ''null'' then Some (JNull, drop 3 r)
          else if take 4 (c # r) = ''true'' then Some (JBool True, drop 3 r)
          else if take 5 (c # r) = ''false'' then Some (JBool False, drop 4 r)
          else if c = CHR ''-'' then map_option (\<lambda>(k, t). (JNum (- k), t)) (parseNat r)
          else map_option (\<lambda>(k, t). (JNum k, t)) (parseNat (c # r)))"
| "parseElements 0 s = None"
| "parseElements (Suc n) s =
     (case parseValue n s of
        None \<Rightarrow> None
      | Some (v, r) \<Rightarrow>
          (case skipSpace r of
             [] \<Rightarrow> None
           | c # r' \<Rightarrow>
               if c = CHR '','' then map_option (\<lambda>(vs, t). (v # vs, t)) (parseElements n r')
               else if c = CHR '']'' then Some ([v], r')
               else None))"
| "parseMembers 0 s = None"
| "parseMembers (Suc n) s =
     (case skipSpace s of
        [] \<Rightarrow> None
      | q # r \<Rightarrow>
          if q \<noteq> CHR 0x22 then None
          else
            (case parseChars r of
               None \<Rightarrow> None
             | Some (name, r1) \<Rightarrow>
                 (case skipSpace r1 of
                    [] \<Rightarrow> None
                  | c # r2 \<Rightarrow>
                      if c \<noteq> CHR '':'' then None
                      else
                        (case parseValue n r2 of
                           None \<Rightarrow> None
                         | Some (v, r3) \<Rightarrow>
                             (case skipSpace r3 of
                                [] \<Rightarrow> None
                              | d # r4 \<Rightarrow>
                                  if d = CHR '','' then
                                    map_option (\<lambda>(ms, t). ((name, v) # ms, t)) (parseMembers n r4)
                                  else if d = CHR ''}'' then Some ([(name, v)], r4)
                                  else None)))))"

definition parseJSON :: "string \<Rightarrow> json completion" where
  "parseJSON s =
     (case parseValue (2 * length s + 2) s of
        None \<Rightarrow> Inl (Error ''Unexpected token in JSON'')
      | Some (v, r) \<Rightarrow>
          if skipSpace r = [] then Inr v else Inl (Error ''Unexpected token in JSON''))"

subsection \<open>Base64\<close>

definition b64char :: "int \<Rightarrow> char" where
  "b64char n =
     ''ABCDEFGHIJKLMNOPQRSTUVWXYZabcdefghijklmnopqrstuvwxyz0123456789+/'' ! nat (n mod 64)"

definition b64val :: "char \<Rightarrow> int option" where
  "b64val c =
     (let n = (of_char c :: int)
      in if 65 \<le> n \<and> n \<le> 90 then Some (n - 65)
         else if 97 \<le> n \<and> n \<le> 122 then Some (n - 71)
         else if 48 \<le> n \<and> n \<le> 57 then Some (n + 4)
         else if n = 43 then Some 62
         else if n = 47 then Some 63
         else None)"

fun btoa_ref :: "string \<Rightarrow> string" where
  "btoa_ref [] = []"
| "btoa_ref [x] =
     (let a = (of_char x :: int)
      in [b64char (a div 4), b64char ((a mod 4) * 16), CHR ''='', CHR ''=''])"
| "btoa_ref [x, y] =
     (let a = (of_char x :: int); b = (of_char y :: int)
      in [b64char (a div 4), b64char ((a mod 4) * 16 + b div 16), b64char ((b mod 16) * 4),
          CHR ''=''])"
| "btoa_ref (x # y # z # r) =
     (let a = (of_char x :: int); b = (of_char y :: int); c = (of_char z :: int)
      in [b64char (a div 4), b64char ((a mod 4) * 16 + b div 16),
          b64char ((b mod 16) * 4 + c div 64), b64char (c mod 64)] @ btoa_ref r)"

text \<open>
  Decoding four characters at a time; a single character left over, or a character outside
  the alphabet, is the error \<open>atob\<close> raises.
\<close>

fun atob_groups :: "string \<Rightarrow> string option" where
  "atob_groups [] = Some []"
| "atob_groups [w] = None"
| "atob_groups [w, x] =
     (case (b64val w, b64val x) of
        (Some a, Some b) \<Rightarrow> Some [char_of (a * 4 + b div 16)]
      | _ \<Rightarrow> None)"
| "atob_groups [w, x, y] =
     (case (b64val w, b64val x, b64val y) of
        (Some a, Some b, Some c) \<Rightarrow>
          Some [char_of (a * 4 + b div 16), char_of ((b mod 16) * 16 + c div 4)]
      | _ \<Rightarrow> None)"
| "atob_groups (w # x # y # z # r) =
     (case (b64val w, b64val x, b64val y, b64val z) of
        (Some a, Some b, Some c, Some d) \<Rightarrow>
          map_option (\<lambda>t. [char_of (a * 4 + b div 16), char_of ((b mod 16) * 16 + c div 4),
                             char_of ((c mod 4) * 64 + d)] @ t) (atob_groups r)
      | _ \<Rightarrow> None)"

text \<open>Up to two \<open>=\<close> at the end of a text whose length is a multiple of four are padding.\<close>

fun stripPadding :: "string \<Rightarrow> string" where
  "stripPadding [w, x, y, z] =
     (if z = CHR ''='' then (if y = CHR ''='' then [w, x] else [w, x, y]) else [w, x, y, z])"
| "stripPadding (w # x # y # z # r) = w # x # y # z # stripPadding r"
| "stripPadding s = s"

definition atob_ref :: "string \<Rightarrow> string completion" where
  "atob_ref s =
     (case atob_groups
             (stripPadding (filter (\<lambda>c. (of_char c :: int) \<notin> {9, 10, 12, 13, 32}) s)) of
        None \<Rightarrow> Inl (Error ''The string to be decoded is not correctly encoded.'')
      | Some t \<Rightarrow> Inr t)"

subsection \<open>The share runtime\<close>

definition package_json :: "share_package \<Rightarrow> json" where
  "package_json p =
     JObj [(''website'', JStr (pkg_website p)),
           (''username'', JStr (pkg_username p)),
           (''encryptedPassword'', JStr (encryptedPassword p)),
           (''created'', JNum (created p)),
           (''expires'', JNum (expires p)),
           (''recipientEmail'', (case recipientEmail p of None \<Rightarrow> JNull | Some r \<Rightarrow> JStr r))]"

text \<open>
  Reading a parsed value as a package. The stand-in raises on a value that does not have
  the five properties with their types, where the code would read \<open>undefined\<close>.
\<close>

definition json_package :: "json \<Rightarrow> share_package completion" where
  "json_package v =
     (case v of
        JObj ms \<Rightarrow>
          (case (member ms ''website'', member ms ''username'', member ms ''encryptedPassword'',
                 member ms ''created'', member ms ''expires'') of
             (Some (JStr w), Some (JStr u), Some (JStr e), Some (JNum c), Some (JNum x)) \<Rightarrow>
               Inr \<lparr>pkg_website = w, pkg_username = u, encryptedPassword = e, created = c,
                    expires = x,
                    recipientEmail = (case member ms ''recipientEmail'' of
                                        Some (JStr r) \<Rightarrow> Some r
                                      | _ \<Rightarrow> None)\<rparr>
           | _ \<Rightarrow> Inl (Error ''not a share package''))
      | _ \<Rightarrow> Inl (Error ''not a share package''))"

text \<open>
  The passphrase cipher. \<open>sample_ciphertext\<close> is what
  \<open>CryptoJS.AES.encrypt('hunter2', 'RightKey1234')\<close> gives with the salt 0102030405060708,
  and \<open>sample_decrypt\<close> is what \<open>CryptoJS.AES.decrypt(...).toString(CryptoJS.enc.Utf8)\<close> gives on
  it under four keys. Under \<open>WrongKey0000\<close> the last decrypted byte, taken as the padding
  length, exceeds the block and the text is empty; under \<open>WrongKey0012\<close> the bytes left after
  the padding are not UTF-8 and the decoder raises; under \<open>WrongKey0225\<close> three bytes are left
  and they are text.
\<close>

definition sample_ciphertext :: string where
  "sample_ciphertext = ''U2FsdGVkX18BAgMEBQYHCMOxHoc3XxLlzWMOy9qnKnI=''"

definition sample_decrypt :: "string \<Rightarrow> string completion option" where
  "sample_decrypt k =
     (if k = ''RightKey1234'' then Some (Inr ''hunter2'')
      else if k = ''WrongKey0000'' then Some (Inr [])
      else if k = ''WrongKey0012'' then Some (Inl (Error ''Malformed UTF-8 data''))
      else if k = ''WrongKey0225'' then Some (Inr [CHR ''e'', CHR 0x27, CHR ''Z''])
      else None)"

text \<open>
  Everywhere else the stand-in marks the text with the key: decrypting under the key that
  encrypted gives the text back, and under another key gives the empty text, as CryptoJS
  does for most wrong keys.
\<close>

definition ref_aesEncrypt :: "string \<Rightarrow> string \<Rightarrow> string \<Rightarrow> string" where
  "ref_aesEncrypt text k salt = salt @ rev k @ text"

definition ref_aesDecryptUtf8 :: "string \<Rightarrow> string \<Rightarrow> string completion" where
  "ref_aesDecryptUtf8 c k =
     (if c = sample_ciphertext \<and> sample_decrypt k \<noteq> None then the (sample_decrypt k)
      else if take (length k) (drop 8 c) = rev k then Inr (drop (8 + length k) c)
      else Inr [])"

definition ref_share_runtime :: share_runtime where
  "ref_share_runtime =
     \<lparr>btoa = btoa_ref,
      atob = atob_ref,
      stringifyPackage = (\<lambda>p. stringify (package_json p)),
      parsePackage = (\<lambda>s. case parseJSON s of Inl e \<Rightarrow> Inl e | Inr v \<Rightarrow> json_package v),
      aesEncrypt = ref_aesEncrypt,
      aesDecryptUtf8 = ref_aesDecryptUtf8\<rparr>"

text \<open>A credential shared at a fixed time, with and without a recipient, and its link.\<close>

definition example_credential :: credential where
  "example_credential =
     \<lparr>cred_id = None, website = ''example.com'', username = ''ann'', password = ''hunter2'',
      lastUpdated = 1700000000000, hasTOTP = False\<rparr>"

definition example_random :: "8 word list" where
  "example_random = [7, 200, 33, 64, 129, 255, 0, 61, 62, 90, 14, 173]"

definition example_share :: "string option \<Rightarrow> share_package \<times> string" where
  "example_share recipient =
     createShareablePassword ref_share_runtime example_credential recipient example_random
       ''saltsalt'' 1700000000000"

definition example_url :: "string option \<Rightarrow> string" where
  "example_url recipient = generateShareURL ref_share_runtime (fst (example_share recipient))"

text \<open>A package that carries the sample ciphertext and expires in the year 2100, and its link.\<close>

definition sample_package :: share_package where
  "sample_package =
     \<lparr>pkg_website = ''example.com'', pkg_username = ''ann'',
      encryptedPassword = sample_ciphertext, created = 1700000000000,
      expires = 4102444800000, recipientEmail = None\<rparr>"

definition sample_url :: string where
  "sample_url = generateShareURL ref_share_runtime sample_package"

subsection \<open>The crypto runtime\<close>

text \<open>UTF-8 on the characters up to U+00FF; a byte that starts no such character decodes to \<open>?\<close>.\<close>

definition ref_utf8Encode :: "string \<Rightarrow> bytes" where
  "ref_utf8Encode s =
     concat (map (\<lambda>c. let n = (of_char c :: int)
                       in if n < 128 then [word_of_int n]
                          else [word_of_int (192 + n div 64), word_of_int (128 + n mod 64)]) s)"

fun ref_utf8Decode :: "bytes \<Rightarrow> string" where
  "ref_utf8Decode [] = []"
| "ref_utf8Decode [b] = (if uint b < 128 then [char_of (uint b)] else ''?'')"
| "ref_utf8Decode (b # c # r) =
     (if uint b < 128 then char_of (uint b) # ref_utf8Decode (c # r)
      else if (uint b = 194 \<or> uint b = 195) \<and> 128 \<le> uint c \<and> uint c < 192
      then char_of ((uint b - 192) * 64 + (uint c - 128)) # ref_utf8Decode r
      else CHR ''?'' # ref_utf8Decode (c # r))"

text \<open>The stand-in for key derivation: 32 bytes read off the password and the salt.\<close>

definition ref_kdf :: "string \<Rightarrow> bytes" where
  "ref_kdf pw = take 32 (ref_utf8Encode (pw @ ''AIVault-Static-Salt-For-Consistency''))"

text \<open>
  The stand-in for an authenticated cipher: the text is XOR-ed with the key and the nonce,
  and sixteen bytes made from the key, the nonce and the ciphertext are appended; opening
  checks them.
\<close>

definition keyStream :: "bytes \<Rightarrow> bytes \<Rightarrow> nat \<Rightarrow> bytes" where
  "keyStream k iv n = take n (concat (replicate (Suc (n div 32)) (k @ iv @ [1])))"

definition sealTag :: "bytes \<Rightarrow> bytes \<Rightarrow> bytes \<Rightarrow> bytes" where
  "sealTag k iv c =
     map (\<lambda>b. xor b (fold xor (iv @ c) 0)) (take 16 (k @ replicate 16 0))"

definition seal :: "bytes \<Rightarrow> bytes \<Rightarrow> bytes \<Rightarrow> bytes" where
  "seal k iv p =
     (let c = map (\<lambda>(x, y). xor x y) (zip p (keyStream k iv (length p)))
      in c @ sealTag k iv c)"

definition unseal :: "bytes \<Rightarrow> bytes \<Rightarrow> bytes \<Rightarrow> bytes option" where
  "unseal k iv d =
     (let c = take (length d - 16) d
      in if length d < 16 \<or> drop (length d - 16) d \<noteq> sealTag k iv c then None
         else Some (map (\<lambda>(x, y). xor x y) (zip c (keyStream k iv (length c)))))"

definition ref_subtleEncrypt :: "key_material \<Rightarrow> bytes \<Rightarrow> bytes \<Rightarrow> bytes completion" where
  "ref_subtleEncrypt km iv p =
     (case km of CryptoKey k \<Rightarrow> Inr (seal k iv p) | WordArray k \<Rightarrow> Inl (Error ''TypeError''))"

definition ref_subtleDecrypt :: "key_material \<Rightarrow> bytes \<Rightarrow> bytes \<Rightarrow> bytes completion" where
  "ref_subtleDecrypt km iv d =
     (case km of
        CryptoKey k \<Rightarrow>
          (case unseal k iv d of None \<Rightarrow> Inl (Error ''OperationError'') | Some p \<Rightarrow> Inr p)
      | WordArray k \<Rightarrow> Inl (Error ''TypeError''))"

definition byteChar :: "8 word \<Rightarrow> char" where
  "byteChar b = char_of (uint b)"

definition charByte :: "char \<Rightarrow> 8 word" where
  "charByte c = word_of_int (of_char c)"

definition ref_cjsEncrypt :: "string \<Rightarrow> key_material \<Rightarrow> bytes \<Rightarrow> string completion" where
  "ref_cjsEncrypt t km iv =
     (case km of
        WordArray k \<Rightarrow> Inr (btoa_ref (map byteChar (seal k iv (ref_utf8Encode t))))
      | CryptoKey k \<Rightarrow> Inl (Error ''TypeError''))"

definition ref_cjsDecryptUtf8 ::
  "json option \<Rightarrow> key_material \<Rightarrow> json option \<Rightarrow> string completion" where
  "ref_cjsDecryptUtf8 d km iv =
     (case (d, km, iv) of
        (Some (JStr c), WordArray k, Some (JStr ivHex)) \<Rightarrow>
          (case (atob_ref c, hexToBytes ivHex) of
             (Inr t, Some ivBytes) \<Rightarrow>
               (case unseal k ivBytes (map charByte t) of
                  None \<Rightarrow> Inr []
                | Some p \<Rightarrow> Inr (ref_utf8Decode p))
           | _ \<Rightarrow> Inr [])
      | _ \<Rightarrow> Inl (Error ''TypeError''))"

definition ref_crypto_runtime :: crypto_runtime where
  "ref_crypto_runtime =
     \<lparr>JSON_parse = parseJSON,
      JSON_stringify = stringify,
      hasSubtle = True,
      subtleDeriveKey = (\<lambda>pw. Inr (ref_kdf pw)),
      cjsPBKDF2 = ref_kdf,
      utf8Encode = ref_utf8Encode,
      utf8Decode = ref_utf8Decode,
      subtleEncrypt = ref_subtleEncrypt,
      subtleDecrypt = ref_subtleDecrypt,
      cjsEncrypt = ref_cjsEncrypt,
      cjsDecryptUtf8 = ref_cjsDecryptUtf8\<rparr>"

text \<open>The same runtime in a browser without WebCrypto.\<close>

definition ref_cjs_runtime :: crypto_runtime where
  "ref_cjs_runtime = ref_crypto_runtime\<lparr>hasSubtle := False\<rparr>"

definition example_rnd :: randomness where
  "example_rnd =
     \<lparr>ivGcm = [17, 34, 51, 68, 85, 102, 119, 136, 153, 170, 187, 204],
      ivCbc = [1, 2, 3, 4, 5, 6, 7, 8, 9, 10, 11, 12, 13, 14, 15, 16],
      ivRetry = [16, 15, 14, 13, 12, 11, 10, 9, 8, 7, 6, 5, 4, 3, 2, 1]\<rparr>"

text \<open>A master key of each kind, and the envelopes the reference runtime makes under them.\<close>

definition example_key :: master_key where
  "example_key = deriveMasterKey ref_crypto_runtime ''correct horse battery''"

definition example_key_cjs :: master_key where
  "example_key_cjs = deriveMasterKey ref_cjs_runtime ''correct horse battery''"

definition webEnvelope :: "string \<Rightarrow> string" where
  "webEnvelope t =
     stringify (envelope (bytesToHex (ivGcm example_rnd))
       (bytesToHex (seal (ref_kdf ''correct horse battery'') (ivGcm example_rnd) (ref_utf8Encode t))))"

definition cbcEnvelope :: "string \<Rightarrow> string" where
  "cbcEnvelope t =
     stringify (envelope (bytesToHex (ivCbc example_rnd))
       (btoa_ref (map byteChar
          (seal (ref_kdf ''correct horse battery'') (ivCbc example_rnd) (ref_utf8Encode t)))))"

text \<open>
  A stored vault: the verification token, one credential, an empty list of shared
  passwords, each encrypted under the key of \<open>correct horse battery\<close>, and a 2FA blob that
  is not an envelope.
\<close>

definition stored_credentials :: json where
  "stored_credentials =
     JArr [JObj [(''website'', JStr ''example.com''), (''username'', JStr ''ann''),
                 (''password'', JStr ''hunter2''), (''lastUpdated'', JNum 1700000000000),
                 (''hasTOTP'', JBool False)]]"

definition example_storage :: storage where
  "example_storage name =
     (if name = VERIFICATION_KEY
      then Some (webEnvelope (verificationPrefix @ decimal 1700000000000))
      else if name = VAULT_DATA_KEY then Some (webEnvelope (stringify stored_credentials))
      else if name = TOTP_SECRETS_KEY then Some (''{'' @ [CHR 0x22] @ ''iv'' @ [CHR 0x22] @ '':'' @ [CHR 0x22] @ ''00'')
      else if name = SHARED_PASSWORDS_KEY then Some (webEnvelope ''[]'')
      else None)"

definition locked_app :: "(json, json, json) app" where
  "locked_app =
     \<lparr>passwords = [], masterPassword = None, isVaultUnlocked = False, totpSecrets = [],
      sharedPasswords = [], selectedPassword = None, effects = []\<rparr>"

section \<open>Properties of the credential matcher\<close>

lemma includes_iff: "str_includes s t \<longleftrightarrow> (\<exists>p q. s = p @ t @ q)"
proof (induction s)
  case Nil
  then show ?case by auto
next
  case (Cons x xs)
  show ?case
  proof
    assume "str_includes (x # xs) t"
    then consider "take (length t) (x # xs) = t" | "str_includes xs t" by auto
    then show "\<exists>p q. x # xs = p @ t @ q"
    proof cases
      case 1
      then have "x # xs = [] @ t @ drop (length t) (x # xs)"
        by (metis append_Nil append_take_drop_id)
      then show ?thesis by blast
    next
      case 2
      then obtain p q where "xs = p @ t @ q" using Cons.IH by blast
      then have "x # xs = (x # p) @ t @ q" by simp
      then show ?thesis by blast
    qed
  next
    assume "\<exists>p q. x # xs = p @ t @ q"
    then obtain p q where pq: "x # xs = p @ t @ q" by blast
    show "str_includes (x # xs) t"
    proof (cases p)
      case Nil
      then have "take (length t) (x # xs) = t" using pq by simp
      then show ?thesis by simp
    next
      case (Cons y ys)
      then have "xs = ys @ t @ q" using pq by simp
      then have "str_includes xs t" using Cons.IH by blast
      then show ?thesis by simp
    qed
  qed
qed

lemma of_char_toLowerChar_dot: "toLowerChar c = CHR ''.'' \<Longrightarrow> c = CHR ''.''"
proof (rule ccontr)
  assume a: "toLowerChar c = CHR ''.''" and b: "c \<noteq> CHR ''.''"
  define n where "n = (of_char c :: nat)"
  have up: "(65 \<le> n \<and> n \<le> 90) \<or> (192 \<le> n \<and> n \<le> 222 \<and> n \<noteq> 215)"
    using a b by (auto simp: toLowerChar_def Let_def n_def split: if_splits)
  then have "toLowerChar c = char_of (n + 32)"
    by (auto simp: toLowerChar_def Let_def n_def)
  then have "(of_char (char_of (n + 32) :: char) :: nat) = of_char CHR ''.''"
    using a by simp
  then have "(n + 32) mod 256 = 46" by simp
  then show False using up by auto
qed

lemma split_on_no_sep: "c \<notin> set s \<Longrightarrow> split_on c s = [s]"
  by (induction s) auto

lemma possibleDomains_single_label:
  "CHR ''.'' \<notin> set h \<Longrightarrow> possibleDomains (toLowerCase h) = []"
proof -
  assume "CHR ''.'' \<notin> set h"
  then have "\<forall>c \<in> set h. toLowerChar c \<noteq> CHR ''.''"
    using of_char_toLowerChar_dot by blast
  then have "CHR ''.'' \<notin> set (toLowerCase h)"
    unfolding toLowerCase_def by (metis (no_types, lifting) imageE set_map)
  then show ?thesis by (simp add: possibleDomains_def split_on_no_sep)
qed

lemma website_ensureId: "website (ensureId e) = website e"
  by (simp add: ensureId_def)

lemma entryMatches_ensureId: "entryMatches h (ensureId e) = entryMatches h e"
  by (simp add: entryMatches_def website_ensureId)

lemma entryMatches_iff:
  "entryMatches h =
     (\<lambda>e. \<exists>d \<in> set (possibleDomains h).
        (\<exists>p q. toLowerCase (website e) = p @ d @ q) \<or> (\<exists>p q. d = p @ toLowerCase (website e) @ q))"
  by (rule ext) (simp add: entryMatches_def Let_def list_ex_iff includes_iff)

text \<open>
  Claim C4. For a URL whose hostname parses to \<open>h\<close>, the match operation returns exactly
  the stored records (each with its id backfilled) whose lower-cased website contains, or is
  contained in, some element of the suffix chain of the lower-cased hostname. The chain of
  \<open>a.b.example.com\<close> is \<open>a.b.example.com\<close>, \<open>b.example.com\<close>, \<open>example.com\<close>; a record for
  \<open>example.com\<close> is returned for \<open>login.example.com\<close>, and a record for \<open>notexample.org\<close> is
  not returned for \<open>example.com\<close>.
\<close>

theorem findCredentialsForUrl_suffix_chain:
  "(url_hostname url = Some h \<longrightarrow>
      fst (findCredentialsForUrl url_hostname stored url) =
        map ensureId
          (filter (\<lambda>e. \<exists>d \<in> set (possibleDomains (toLowerCase h)).
                          (\<exists>p q. toLowerCase (website e) = p @ d @ q) \<or>
                          (\<exists>p q. d = p @ toLowerCase (website e) @ q))
             stored))
   \<and> possibleDomains ''a.b.example.com'' = [''a.b.example.com'', ''b.example.com'', ''example.com'']
   \<and> fst (findCredentialsForUrl https_hostname
             [\<lparr>cred_id = i, website = ''example.com'', username = u, password = pw,
               lastUpdated = t, hasTOTP = f\<rparr>] ''https://login.example.com/'')
       = [ensureId \<lparr>cred_id = i, website = ''example.com'', username = u, password = pw,
               lastUpdated = t, hasTOTP = f\<rparr>]
   \<and> fst (findCredentialsForUrl https_hostname
             [\<lparr>cred_id = i, website = ''notexample.org'', username = u, password = pw,
               lastUpdated = t, hasTOTP = f\<rparr>] ''https://example.com/'') = []"
proof (intro conjI impI)
  assume h: "url_hostname url = Some h"
  have "filter (entryMatches (toLowerCase h)) (map ensureId stored)
        = map ensureId (filter (entryMatches (toLowerCase h)) stored)"
    by (simp add: filter_map o_def entryMatches_ensureId)
  then show "fst (findCredentialsForUrl url_hostname stored url) =
        map ensureId
          (filter (\<lambda>e. \<exists>d \<in> set (possibleDomains (toLowerCase h)).
                          (\<exists>p q. toLowerCase (website e) = p @ d @ q) \<or>
                          (\<exists>p q. d = p @ toLowerCase (website e) @ q))
             stored)"
    using h by (simp add: findCredentialsForUrl_def Let_def entryMatches_iff)
next
  show "possibleDomains ''a.b.example.com'' = [''a.b.example.com'', ''b.example.com'', ''example.com'']"
    by (simp add: possibleDomains_def)
next
  show "fst (findCredentialsForUrl https_hostname
             [\<lparr>cred_id = i, website = ''example.com'', username = u, password = pw,
               lastUpdated = t, hasTOTP = f\<rparr>] ''https://login.example.com/'')
       = [ensureId \<lparr>cred_id = i, website = ''example.com'', username = u, password = pw,
               lastUpdated = t, hasTOTP = f\<rparr>]"
    by (simp add: findCredentialsForUrl_def https_hostname_def Let_def entryMatches_def
        website_ensureId possibleDomains_def toLowerCase_def toLowerChar_def)
next
  show "fst (findCredentialsForUrl https_hostname
             [\<lparr>cred_id = i, website = ''notexample.org'', username = u, password = pw,
               lastUpdated = t, hasTOTP = f\<rparr>] ''https://example.com/'') = []"
    by (simp add: findCredentialsForUrl_def https_hostname_def Let_def entryMatches_def
        website_ensureId possibleDomains_def toLowerCase_def toLowerChar_def)
qed

theorem findCredentialsForUrl_suffix_chain_witness:
  "https_hostname ''https://a.b.example.com/login'' = Some ''a.b.example.com''
   \<and> fst (findCredentialsForUrl https_hostname
        [\<lparr>cred_id = None, website = ''B.Example.com'', username = ''ann'', password = ''pw'',
           lastUpdated = 0, hasTOTP = False\<rparr>,
         \<lparr>cred_id = Some ''k'', website = ''other.net'', username = ''bob'', password = ''pw'',
           lastUpdated = 0, hasTOTP = False\<rparr>]
        ''https://a.b.example.com/login'')
     = [\<lparr>cred_id = Some ''B-Example-com-ann'', website = ''B.Example.com'', username = ''ann'',
          password = ''pw'', lastUpdated = 0, hasTOTP = False\<rparr>]"
proof -
  have h: "https_hostname ''https://a.b.example.com/login'' = Some ''a.b.example.com''"
    by (simp add: https_hostname_def)
  have m: "fst (findCredentialsForUrl https_hostname
        [\<lparr>cred_id = None, website = ''B.Example.com'', username = ''ann'', password = ''pw'',
           lastUpdated = 0, hasTOTP = False\<rparr>,
         \<lparr>cred_id = Some ''k'', website = ''other.net'', username = ''bob'', password = ''pw'',
           lastUpdated = 0, hasTOTP = False\<rparr>]
        ''https://a.b.example.com/login'')
     = [\<lparr>cred_id = Some ''B-Example-com-ann'', website = ''B.Example.com'', username = ''ann'',
          password = ''pw'', lastUpdated = 0, hasTOTP = False\<rparr>]"
    by code_simp
  from findCredentialsForUrl_suffix_chain [of https_hostname "''https://a.b.example.com/login''" "''a.b.example.com''"]
  show ?thesis using h m by simp
qed

text \<open>
  Claim C9. For a URL whose hostname is a single label without a dot, such as
  \<open>localhost\<close>, the match operation returns the empty list whatever is stored: the suffix
  chain leaves out the last label of the hostname, so it is empty, and even a record whose
  website is that very hostname is not returned.
\<close>

theorem findCredentialsForUrl_single_label:
  "url_hostname url = Some h \<Longrightarrow> CHR ''.'' \<notin> set h \<Longrightarrow>
     fst (findCredentialsForUrl url_hostname stored url) = []"
  by (simp add: findCredentialsForUrl_def Let_def entryMatches_def possibleDomains_single_label)

theorem findCredentialsForUrl_single_label_witness:
  "https_hostname ''https://localhost/'' = Some ''localhost''
   \<and> CHR ''.'' \<notin> set ''localhost''
   \<and> fst (findCredentialsForUrl https_hostname
        [\<lparr>cred_id = None, website = ''localhost'', username = ''dev'', password = ''pw'',
           lastUpdated = 0, hasTOTP = False\<rparr>] ''https://localhost/'') = []"
proof -
  have h: "https_hostname ''https://localhost/'' = Some ''localhost''"
    by (simp add: https_hostname_def)
  have d: "CHR ''.'' \<notin> set ''localhost''" by simp
  show ?thesis using h d findCredentialsForUrl_single_label [of https_hostname "''https://localhost/''" "''localhost''"] by simp
qed

section \<open>Properties of the vault operations\<close>










text \<open>
  Claim C5, as amended. An operation invoked while the vault is locked (the flag
  \<open>isVaultUnlocked\<close> is false) raises no error: saving a credential, deleting a credential and
  deleting a 2FA entry test the flag first and return at once, leaving every field of the
  vault and the list of effects exactly as they were.
\<close>

theorem locked_operations_return_unchanged:
  "\<not> isVaultUnlocked st \<Longrightarrow>
     savePassword form now st = Inr st \<and> deletePassword i st = Inr st \<and> deleteTOTP i st = Inr st"
  by (simp add: savePassword_def deletePassword_def deleteTOTP_def)

theorem locked_operations_return_unchanged_witness:
  "\<not> isVaultUnlocked (example_vault\<lparr>isVaultUnlocked := False\<rparr>)
   \<and> savePassword example_form 1700000000001 (example_vault\<lparr>isVaultUnlocked := False\<rparr>)
       = Inr (example_vault\<lparr>isVaultUnlocked := False\<rparr>)
   \<and> deletePassword 0 (example_vault\<lparr>isVaultUnlocked := False\<rparr>)
       = Inr (example_vault\<lparr>isVaultUnlocked := False\<rparr>)
   \<and> deleteTOTP 0 (example_vault\<lparr>isVaultUnlocked := False\<rparr>)
       = Inr (example_vault\<lparr>isVaultUnlocked := False\<rparr>)"
proof -
  have h: "\<not> isVaultUnlocked (example_vault\<lparr>isVaultUnlocked := False\<rparr>)" by simp
  show ?thesis
    using h locked_operations_return_unchanged
      [of "example_vault\<lparr>isVaultUnlocked := False\<rparr>" example_form 1700000000001 0]
    by simp
qed

text \<open>
  The claim as stated asks for a \<open>VaultLockedError\<close>. On the freshly constructed, locked
  application the three operations return normally instead.
\<close>

theorem locked_operations_error_counterexample:
  "savePassword example_form 1700000000001 initial_app = Inr initial_app
   \<and> deletePassword 0 initial_app = Inr initial_app
   \<and> deleteTOTP 0 initial_app = Inr initial_app
   \<and> \<not> isVaultUnlocked initial_app"
  by (simp add: savePassword_def deletePassword_def deleteTOTP_def initial_app_def)

section \<open>Properties of the share packager\<close>

lemma decodeShareURL_parsed:
  assumes "split_on CHR ''#'' url = a # h # r" "h \<noteq> []" "atob rt h = Inr d"
    and "parsePackage rt d = Inr p"
  shows "decodeShareURL rt url k now =
     (if expires p < now
      then Inl (Error ''Failed to decode shared password: This shared password has expired'')
      else (case aesDecryptUtf8 rt (encryptedPassword p) k of
              Inl (Error m) \<Rightarrow> Inl (Error (''Failed to decode shared password: '' @ m))
            | Inr t \<Rightarrow>
                if t = [] then Inl (Error ''Failed to decode shared password: Invalid decryption key'')
                else Inr \<lparr>sc_website = pkg_website p, sc_username = pkg_username p,
                          sc_password = t\<rparr>))"
  using assms
  by (simp add: decodeShareURL_def decodeShareURL_body_def split: sum.splits js_error.splits)

text \<open>
  For every runtime: an expired package is refused whatever the key and whatever the
  cipher would return, and a decryption that yields the empty text is answered by the
  invalid-key error.
\<close>

lemma decodeShareURL_expiry_before_decryption:
  "split_on CHR ''#'' url = a # h # r \<Longrightarrow> h \<noteq> [] \<Longrightarrow> atob rt h = Inr d \<Longrightarrow>
   parsePackage rt d = Inr p \<Longrightarrow>
     (expires p < now1 \<longrightarrow>
        decodeShareURL (rt\<lparr>aesDecryptUtf8 := f\<rparr>) url k1 now1 =
          Inl (Error ''Failed to decode shared password: This shared password has expired''))
     \<and> (\<not> expires p < now2 \<and> aesDecryptUtf8 rt (encryptedPassword p) k2 = Inr [] \<longrightarrow>
          decodeShareURL rt url k2 now2 =
            Inl (Error ''Failed to decode shared password: Invalid decryption key''))
     \<and> Error ''Failed to decode shared password: This shared password has expired''
          \<noteq> Error ''Failed to decode shared password: Invalid decryption key''"
proof (intro conjI impI)
  assume a: "split_on CHR ''#'' url = a # h # r" "h \<noteq> []" "atob rt h = Inr d"
    "parsePackage rt d = Inr p"
  {
    assume "expires p < now1"
    then show "decodeShareURL (rt\<lparr>aesDecryptUtf8 := f\<rparr>) url k1 now1 =
          Inl (Error ''Failed to decode shared password: This shared password has expired'')"
      using a decodeShareURL_parsed [of url a h r "rt\<lparr>aesDecryptUtf8 := f\<rparr>" d p k1 now1]
      by simp
  next
    assume "\<not> expires p < now2 \<and> aesDecryptUtf8 rt (encryptedPassword p) k2 = Inr []"
    then show "decodeShareURL rt url k2 now2 =
            Inl (Error ''Failed to decode shared password: Invalid decryption key'')"
      using a decodeShareURL_parsed [of url a h r rt d p k2 now2] by simp
  next
    show "Error ''Failed to decode shared password: This shared password has expired''
          \<noteq> Error ''Failed to decode shared password: Invalid decryption key''"
      by simp
  }
qed

text \<open>
  Claim C8 asks that an expired package fail with the expiry error before any decryption,
  and that a wrong key on a package that has not expired fail with the invalid-key error.
  On the package of \<open>sample_url\<close> the code does the first, whatever the key, and for the
  wrong key \<open>WrongKey0000\<close> the second. For the wrong key \<open>WrongKey0012\<close> the error raised by
  the library's UTF-8 decoder is passed on under its own message, and for the wrong key
  \<open>WrongKey0225\<close> the share opens, with three stray characters as the password.
\<close>

theorem decodeShareURL_wrong_key_outcomes:
  "sample_url = ''https://aivault.app/share#eyJ3ZWJzaXRlIjoiZXhhbXBsZS5jb20iLCJ1c2VybmFtZSI6ImFubiIsImVuY3J5cHRlZFBhc3N3b3JkIjoiVTJGc2RHVmtYMThCQWdNRUJRWUhDTU94SG9jM1h4TGx6V01PeTlxbktuST0iLCJjcmVhdGVkIjoxNzAwMDAwMDAwMDAwLCJleHBpcmVzIjo0MTAyNDQ0ODAwMDAwLCJyZWNpcGllbnRFbWFpbCI6bnVsbH0=''
   \<and> decodeShareURL ref_share_runtime sample_url ''RightKey1234'' 1700000000001
     = Inr \<lparr>sc_website = ''example.com'', sc_username = ''ann'', sc_password = ''hunter2''\<rparr>
   \<and> decodeShareURL ref_share_runtime sample_url ''WrongKey0012'' 4102444800001
       = Inl (Error ''Failed to decode shared password: This shared password has expired'')
   \<and> decodeShareURL ref_share_runtime sample_url ''WrongKey0000'' 1700000000001
       = Inl (Error ''Failed to decode shared password: Invalid decryption key'')
   \<and> decodeShareURL ref_share_runtime sample_url ''WrongKey0012'' 1700000000001
       = Inl (Error ''Failed to decode shared password: Malformed UTF-8 data'')
   \<and> decodeShareURL ref_share_runtime sample_url ''WrongKey0225'' 1700000000001
       = Inr \<lparr>sc_website = ''example.com'', sc_username = ''ann'',
              sc_password = [CHR ''e'', CHR 0x27, CHR ''Z'']\<rparr>"
  by code_simp

text \<open>
  Claim C10. Opening a share never reads \<open>recipientEmail\<close>: two links whose packages differ
  only in that field give, for the same key at the same time, the same outcome: the same
  credential or the same error.
\<close>

theorem decodeShareURL_ignores_recipient:
  assumes "split_on CHR ''#'' url1 = a1 # h1 # r1" and "h1 \<noteq> []" and "atob rt h1 = Inr d1"
    and "parsePackage rt d1 = Inr p"
    and "split_on CHR ''#'' url2 = a2 # h2 # r2" and "h2 \<noteq> []" and "atob rt h2 = Inr d2"
    and "parsePackage rt d2 = Inr (p\<lparr>recipientEmail := e\<rparr>)"
  shows "decodeShareURL rt url1 k now = decodeShareURL rt url2 k now"
proof -
  have "decodeShareURL rt url2 k now =
     (if expires p < now
      then Inl (Error ''Failed to decode shared password: This shared password has expired'')
      else (case aesDecryptUtf8 rt (encryptedPassword p) k of
              Inl (Error m) \<Rightarrow> Inl (Error (''Failed to decode shared password: '' @ m))
            | Inr t \<Rightarrow>
                if t = [] then Inl (Error ''Failed to decode shared password: Invalid decryption key'')
                else Inr \<lparr>sc_website = pkg_website p, sc_username = pkg_username p,
                          sc_password = t\<rparr>))"
    using decodeShareURL_parsed [OF assms(5-8), of k now]
    by (simp split: sum.splits js_error.splits)
  then show ?thesis
    using decodeShareURL_parsed [OF assms(1-4), of k now] by simp
qed


lemma plain_url_split:
  "split_on CHR ''#'' (example_url None) =
     [''https://aivault.app/share'', btoa_ref (stringify (package_json (fst (example_share None))))]"
  by code_simp

lemma plain_url_atob:
  "atob ref_share_runtime (btoa_ref (stringify (package_json (fst (example_share None)))))
     = Inr (stringify (package_json (fst (example_share None))))"
  by code_simp

lemma plain_url_parse:
  "parsePackage ref_share_runtime (stringify (package_json (fst (example_share None))))
     = Inr (fst (example_share None))"
  by code_simp

lemma named_url_split:
  "split_on CHR ''#'' (example_url (Some ''bob@example.org'')) =
     [''https://aivault.app/share'',
      btoa_ref (stringify (package_json (fst (example_share (Some ''bob@example.org'')))))]"
  by code_simp

lemma named_url_atob:
  "atob ref_share_runtime
     (btoa_ref (stringify (package_json (fst (example_share (Some ''bob@example.org''))))))
     = Inr (stringify (package_json (fst (example_share (Some ''bob@example.org'')))))"
  by code_simp

lemma named_url_parse:
  "parsePackage ref_share_runtime
     (stringify (package_json (fst (example_share (Some ''bob@example.org'')))))
     = Inr ((fst (example_share None))\<lparr>recipientEmail := Some ''bob@example.org''\<rparr>)"
  by code_simp

theorem decodeShareURL_ignores_recipient_witness:
  "split_on CHR ''#'' (example_url None) =
     [''https://aivault.app/share'', btoa_ref (stringify (package_json (fst (example_share None))))]
   \<and> btoa_ref (stringify (package_json (fst (example_share None)))) \<noteq> []
   \<and> atob ref_share_runtime (btoa_ref (stringify (package_json (fst (example_share None)))))
       = Inr (stringify (package_json (fst (example_share None))))
   \<and> parsePackage ref_share_runtime (stringify (package_json (fst (example_share None))))
       = Inr (fst (example_share None))
   \<and> split_on CHR ''#'' (example_url (Some ''bob@example.org'')) =
       [''https://aivault.app/share'',
        btoa_ref (stringify (package_json (fst (example_share (Some ''bob@example.org'')))))]
   \<and> btoa_ref (stringify (package_json (fst (example_share (Some ''bob@example.org''))))) \<noteq> []
   \<and> atob ref_share_runtime
        (btoa_ref (stringify (package_json (fst (example_share (Some ''bob@example.org''))))))
       = Inr (stringify (package_json (fst (example_share (Some ''bob@example.org'')))))
   \<and> parsePackage ref_share_runtime
        (stringify (package_json (fst (example_share (Some ''bob@example.org'')))))
       = Inr ((fst (example_share None))\<lparr>recipientEmail := Some ''bob@example.org''\<rparr>)
   \<and> decodeShareURL ref_share_runtime (example_url None) (snd (example_share None)) 1700000000001
       = decodeShareURL ref_share_runtime (example_url (Some ''bob@example.org''))
           (snd (example_share None)) 1700000000001"
proof -
  have n1: "btoa_ref (stringify (package_json (fst (example_share None)))) \<noteq> []"
    by code_simp
  have n2: "btoa_ref (stringify (package_json (fst (example_share (Some ''bob@example.org''))))) \<noteq> []"
    by code_simp
  from decodeShareURL_ignores_recipient
    [OF plain_url_split n1 plain_url_atob plain_url_parse
        named_url_split n2 named_url_atob named_url_parse,
     of "snd (example_share None)" 1700000000001]
  show ?thesis
    using plain_url_split n1 plain_url_atob plain_url_parse
      named_url_split n2 named_url_atob named_url_parse
    by simp
qed

section \<open>Properties of the encryption module\<close>

lemma hexDigit_cases:
  assumes "0 \<le> d" "d < 16"
  shows "d = 0 \<or> d = 1 \<or> d = 2 \<or> d = 3 \<or> d = 4 \<or> d = 5 \<or> d = 6 \<or> d = 7 \<or> d = 8 \<or> d = 9
         \<or> d = 10 \<or> d = 11 \<or> d = 12 \<or> d = 13 \<or> d = 14 \<or> d = (15::int)"
  using assms by arith

lemma hexDigit_props:
  assumes "0 \<le> d" "d < 16"
  shows "hexVal (hexDigit d) = Some d" and "\<not> isSpace (hexDigit d)"
    and "\<not> isLineTerminator (hexDigit d)"
    and "hexDigit d \<noteq> CHR ''-''" and "hexDigit d \<noteq> CHR ''+''"
    and "hexDigit d \<noteq> CHR ''x''" and "hexDigit d \<noteq> CHR ''X''"
  using hexDigit_cases [OF assms]
  by (auto simp: hexDigit_def hexVal_def isSpace_def isLineTerminator_def)

lemma parseInt16_byteToHex: "parseInt16 (byteToHex b) = Some (uint b)"
proof -
  define h where "h = uint b div 16"
  define l where "l = uint b mod 16"
  have hb: "0 \<le> h" "h < 16"
    using uint_lt2p [of b] uint_ge_0 [of b] by (auto simp: h_def pos_imp_zdiv_nonneg_iff)
  have lb: "0 \<le> l" "l < 16" by (auto simp: l_def)
  have v: "16 * h + l = uint b" by (simp add: h_def l_def)
  note ph = hexDigit_props [OF hb] and pl = hexDigit_props [OF lb]
  have "parseInt16 [hexDigit h, hexDigit l] = Some (16 * h + l)"
    using ph pl by (simp add: parseInt16_def Let_def)
  then show ?thesis by (simp add: byteToHex_def h_def [symmetric] l_def [symmetric] v)
qed

lemma matchPairs_bytesToHex: "matchPairs (bytesToHex bs) = map byteToHex bs"
proof (induction bs)
  case Nil
  then show ?case by (simp add: bytesToHex_def)
next
  case (Cons b bs)
  have hb: "0 \<le> uint b div 16" "uint b div 16 < 16"
    using uint_lt2p [of b] uint_ge_0 [of b] by (auto simp: pos_imp_zdiv_nonneg_iff)
  have lb: "0 \<le> uint b mod 16" "uint b mod 16 < 16" by auto
  show ?case
    using Cons.IH hexDigit_props(3) [OF hb] hexDigit_props(3) [OF lb]
    by (simp add: bytesToHex_def byteToHex_def)
qed

lemma hexToBytes_bytesToHex: "bs \<noteq> [] \<Longrightarrow> hexToBytes (bytesToHex bs) = Some bs"
  by (simp add: hexToBytes_def Let_def matchPairs_bytesToHex parseInt16_byteToHex toUint8_def
      map_idI)

lemma decrypt_envelope_web:
  assumes "useWebCrypto mk"
    and "JSON_parse rt c = Inr (envelope (bytesToHex iv) (bytesToHex buf))"
    and "iv \<noteq> []" and "buf \<noteq> []"
    and "subtleDecrypt rt (key mk) iv buf = Inr p"
  shows "decrypt rt (Some c) mk = Inr (parseOrText rt (utf8Decode rt p))"
  using assms
  by (simp add: decrypt_def decrypt_body_def envelope_def getProp_def member_def
      hexToBytes_bytesToHex)

lemma decrypt_envelope_cbc:
  assumes "\<not> useWebCrypto mk"
    and "JSON_parse rt c = Inr (envelope ivHex d)"
    and "cjsDecryptUtf8 rt (Some (JStr d)) (key mk) (Some (JStr ivHex)) = Inr t"
  shows "decrypt rt (Some c) mk = Inr (parseOrText rt t)"
  using assms
  by (simp add: decrypt_def decrypt_body_def envelope_def getProp_def member_def)

lemma roundTrips_decrypt:
  assumes "roundTrips rt mk rnd t"
  shows "\<exists>c. encrypt rt (JStr t) mk rnd = Inr c \<and> decrypt rt (Some c) mk = Inr (parseOrText rt t)"
proof (cases "useWebCrypto mk")
  case True
  then obtain buf where b: "subtleEncrypt rt (key mk) (ivGcm rnd) (utf8Encode rt t) = Inr buf"
    "ivGcm rnd \<noteq> []" "buf \<noteq> []"
    "JSON_parse rt (JSON_stringify rt (envelope (bytesToHex (ivGcm rnd)) (bytesToHex buf)))
       = Inr (envelope (bytesToHex (ivGcm rnd)) (bytesToHex buf))"
    "subtleDecrypt rt (key mk) (ivGcm rnd) buf = Inr (utf8Encode rt t)"
    "utf8Decode rt (utf8Encode rt t) = t"
    using assms by (auto simp: roundTrips_def split: sum.splits)
  have e: "encrypt rt (JStr t) mk rnd =
           Inr (JSON_stringify rt (envelope (bytesToHex (ivGcm rnd)) (bytesToHex buf)))"
    using True b(1) by (simp add: encrypt_def)
  show ?thesis
    using e decrypt_envelope_web [OF True b(4) b(2) b(3) b(5)] b(6) by simp
next
  case False
  then obtain c where b: "cjsEncrypt rt t (key mk) (ivCbc rnd) = Inr c"
    "JSON_parse rt (JSON_stringify rt (envelope (bytesToHex (ivCbc rnd)) c))
       = Inr (envelope (bytesToHex (ivCbc rnd)) c)"
    "cjsDecryptUtf8 rt (Some (JStr c)) (key mk) (Some (JStr (bytesToHex (ivCbc rnd)))) = Inr t"
    using assms by (auto simp: roundTrips_def split: sum.splits)
  have e: "encrypt rt (JStr t) mk rnd =
           Inr (JSON_stringify rt (envelope (bytesToHex (ivCbc rnd)) c))"
    using False b(1) by (simp add: encrypt_def encryptCbc_def)
  show ?thesis
    using e decrypt_envelope_cbc [OF False b(2) b(3)] by simp
qed

text \<open>
  Claim C2, as amended. For every text and every master key on which the runtime
  round-trips, on the WebCrypto path and on the CryptoJS path alike (the cipher of the path
  encrypts the text and decrypts the result to the same text, which on the WebCrypto path
  includes that \<open>TextDecoder\<close> reads back from the bytes of \<open>TextEncoder\<close> the same text),
  \<open>encrypt\<close> returns an envelope, and decrypting that envelope under the same key returns
  the text itself when the text is not JSON, and the value \<open>JSON.parse\<close> reads from it when
  it is.
\<close>

theorem encrypt_decrypt_parses_json:
  "roundTrips rt mk rnd t \<Longrightarrow>
     \<exists>c. encrypt rt (JStr t) mk rnd = Inr c
        \<and> decrypt rt (Some c) mk = Inr (case JSON_parse rt t of Inl e \<Rightarrow> JStr t | Inr v \<Rightarrow> v)"
  using roundTrips_decrypt [of rt mk rnd t] by (simp add: parseOrText_def)

text \<open>
  The claim as stated returns the string on every text. The text \<open>[]\<close> comes back as the
  empty array on both paths.
\<close>

theorem encrypt_decrypt_json_counterexample:
  "encrypt ref_crypto_runtime (JStr ''[]'') example_key example_rnd = Inr (webEnvelope ''[]'')
   \<and> decrypt ref_crypto_runtime (Some (webEnvelope ''[]'')) example_key = Inr (JArr [])
   \<and> encrypt ref_crypto_runtime (JStr ''[]'') example_key_cjs example_rnd = Inr (cbcEnvelope ''[]'')
   \<and> decrypt ref_crypto_runtime (Some (cbcEnvelope ''[]'')) example_key_cjs = Inr (JArr [])"
  by code_simp

theorem encrypt_decrypt_parses_json_witness:
  "roundTrips ref_crypto_runtime example_key example_rnd ''hunter2''
   \<and> (\<exists>c. encrypt ref_crypto_runtime (JStr ''hunter2'') example_key example_rnd = Inr c
          \<and> decrypt ref_crypto_runtime (Some c) example_key = Inr (JStr ''hunter2''))
   \<and> roundTrips ref_crypto_runtime example_key_cjs example_rnd ''hunter2''
   \<and> (\<exists>c. encrypt ref_crypto_runtime (JStr ''hunter2'') example_key_cjs example_rnd = Inr c
          \<and> decrypt ref_crypto_runtime (Some c) example_key_cjs = Inr (JStr ''hunter2''))"
proof -
  have w: "roundTrips ref_crypto_runtime example_key example_rnd ''hunter2''" by code_simp
  have c: "roundTrips ref_crypto_runtime example_key_cjs example_rnd ''hunter2''" by code_simp
  have p: "JSON_parse ref_crypto_runtime ''hunter2'' = Inl (Error ''Unexpected token in JSON'')"
    by code_simp
  show ?thesis
    using w c p
      encrypt_decrypt_parses_json [of ref_crypto_runtime example_key example_rnd "''hunter2''"]
      encrypt_decrypt_parses_json [of ref_crypto_runtime example_key_cjs example_rnd "''hunter2''"]
    by simp
qed






section \<open>Properties of unlocking\<close>

text \<open>
  For every runtime: when the stored credentials decrypt to an array and \<open>JSON.parse\<close> does
  not read the text that array is coerced to, unlocking succeeds with no credentials.
\<close>

lemma unlockVault_array_reparsed:
  assumes "pw \<noteq> []"
    and "truthy (verifyMasterPassword rt pw (getVerificationString ls))"
    and "getVaultData ls = Some blob"
    and "decrypt rt (Some blob) (deriveMasterKey rt pw) = Inr (JArr xs)"
    and "JSON_parse rt (js_toString (JArr xs)) = Inl e"
  shows "passwords (unlockVault rt ls pw now st) = []
         \<and> isVaultUnlocked (unlockVault rt ls pw now st)"
proof -
  have l: "loadPasswords rt (Some blob) (deriveMasterKey rt pw) =
             ([], [ShowMessage
                     ''Your vault data appears to be corrupted. Creating a new empty vault.''])"
    using assms(4,5) by (simp add: loadPasswords_def parseArray_def)
  show ?thesis
    using assms(1,2,3) l by (simp add: unlockVault_def Let_def)
qed

text \<open>
  Claim C6 asks that, with only the 2FA blob corrupted, unlocking give the stored
  credentials and an empty 2FA collection. In \<open>example_storage\<close> the credentials blob decrypts
  to the stored array of one credential and the 2FA blob does not decrypt. \<open>unlockVault\<close>
  unlocks, and both collections are empty: \<open>decrypt\<close> has already parsed the plaintext,
  \<open>unlockVault\<close> hands the array to \<open>JSON.parse\<close> again, the array is coerced to the text
  \<open>[object Object]\<close>, the parser raises, and the \<open>catch\<close> resets the credentials and reports
  the vault as corrupted.
\<close>

theorem unlockVault_reparses_credentials:
  "decrypt ref_crypto_runtime (getVaultData example_storage) example_key = Inr stored_credentials
   \<and> decrypt ref_crypto_runtime (getTOTPSecrets example_storage) example_key = Inl decryptError
   \<and> js_toString stored_credentials = ''[object Object]''
   \<and> JSON_parse ref_crypto_runtime ''[object Object]'' = Inl (Error ''Unexpected token in JSON'')
   \<and> unlockVault ref_crypto_runtime example_storage ''correct horse battery'' 1700000500000 locked_app
       = locked_app\<lparr>masterPassword := Some ''correct horse battery'',
                      isVaultUnlocked := True,
                      effects :=
                        [ShowMessage
                           ''Your vault data appears to be corrupted. Creating a new empty vault.'',
                         UnlockVaultMessage ''correct horse battery'' [],
                         CheckExpiringPasswords, RenderPasswordList [],
                         ShowScreen ''vaultScreen'']\<rparr>
   \<and> passwords locked_app = [] \<and> totpSecrets locked_app = []"
  by code_simp

section \<open>Properties of the TOTP generator\<close>

lemma long_secret_cleaned:
  "toUpperCase (filter (\<lambda>c. \<not> isSpace c) (replicate 108 CHR ''A'')) = replicate 108 CHR ''A''"
  by code_simp

lemma long_secret_hex: "base32ToHex (replicate 108 CHR ''A'') = replicate 135 CHR ''0''"
  by code_simp

lemma counter_one: "intToHexText (counterText (59000 div 1000) 30) = ''0000000000000001''"
  by code_simp

text \<open>
  Claim C3 asks that, for every valid Base32 secret, the code key HMAC-SHA1 with the decoded
  secret. The secret of 108 letters \<open>A\<close> is the Base32 text of 67 zero bytes. For it
  \<open>base32ToHex\<close> returns 135 hexadecimal digits, half a byte more than the 134 digits of the
  decoded secret, and that text is the key \<open>generateTOTP\<close> hands to HMAC-SHA1, whatever that
  function is. For the secret of the spec's example the two texts agree.
\<close>

theorem generateTOTP_key_half_byte:
  "base32ToHex (replicate 108 CHR ''A'') = replicate 135 CHR ''0''
   \<and> bytesToHex (rfc_base32Decode (replicate 108 CHR ''A'')) = replicate 134 CHR ''0''
   \<and> generateTOTP hmac (replicate 108 CHR ''A'') 30 6 59000 =
       padStart 6 CHR ''0''
         (decimal (truncateHex (hmac ''0000000000000001'' (replicate 135 CHR ''0'')) mod 10 ^ 6))
   \<and> base32ToHex ''JBSWY3DPEHPK3PXP'' = bytesToHex (rfc_base32Decode ''JBSWY3DPEHPK3PXP'')
   \<and> base32ToHex ''JBSWY3DPEHPK3PXP'' = ''48656c6c6f21deadbeef''"
proof (intro conjI)
  show "base32ToHex (replicate 108 CHR ''A'') = replicate 135 CHR ''0''"
    by (rule long_secret_hex)
  show "bytesToHex (rfc_base32Decode (replicate 108 CHR ''A'')) = replicate 134 CHR ''0''"
    by code_simp
  show "generateTOTP hmac (replicate 108 CHR ''A'') 30 6 59000 =
       padStart 6 CHR ''0''
         (decimal (truncateHex (hmac ''0000000000000001'' (replicate 135 CHR ''0'')) mod 10 ^ 6))"
    unfolding generateTOTP_def Let_def long_secret_cleaned long_secret_hex counter_one
    by (rule refl)
  show "base32ToHex ''JBSWY3DPEHPK3PXP'' = bytesToHex (rfc_base32Decode ''JBSWY3DPEHPK3PXP'')"
    by code_simp
  show "base32ToHex ''JBSWY3DPEHPK3PXP'' = ''48656c6c6f21deadbeef''"
    by code_simp
qed


end
